theory Spec2Isabelle
  imports Main "HOL-Library.Word" "HOL-Library.AList"
begin

unbundle bit_operations_syntax

section \<open>Python values\<close>

text \<open>
  A Python \<open>str\<close> is a sequence of code points, so it is modelled as a list of
  naturals; \<open>ascii\<close> embeds a literal written in this file. Python's \<open>str\<close> type
  admits every code point below \<open>0x110000\<close>, the surrogates included.
\<close>

type_synonym pystr = "nat list"
type_synonym byte = "8 word"
type_synonym word32 = "32 word"

definition ascii :: "string \<Rightarrow> pystr" where
  "ascii s = map of_char s"

text \<open>
  The exceptions the two scripts can meet. \<open>SystemExit\<close> carries the exit status;
  it is not an \<open>Exception\<close> in Python, so \<open>except Exception\<close> lets it through.
\<close>

datatype exn =
    UnicodeEncodeError
  | RequestException
  | AttributeError
  | TypeError
  | ValueError
  | LibraryError
  | SystemExit nat

datatype 'a result = Returns 'a | Raises exn

text \<open>JSON values as \<open>json.loads\<close> and \<open>json.dumps\<close> see them (numbers: integers only).\<close>

datatype json =
    JNull
  | JBool bool
  | JInt int
  | JStr pystr
  | JArray "json list"
  | JObject "(pystr \<times> json) list"

section \<open>The identifier generator: \<open>make_id\<close>\<close>

subsection \<open>\<open>str.encode("utf-8")\<close>\<close>

definition surrogate :: "nat \<Rightarrow> bool" where
  "surrogate c \<longleftrightarrow> 0xD800 \<le> c \<and> c \<le> 0xDFFF"

definition unicode_scalar :: "nat \<Rightarrow> bool" where
  "unicode_scalar c \<longleftrightarrow> c < 0x110000 \<and> \<not> surrogate c"

text \<open>
  One code point in UTF-8; the strict error handler refuses a surrogate. A number
  from \<open>0x110000\<close> on is no code point of a Python string; it is refused as well.
\<close>

definition utf8_char :: "nat \<Rightarrow> byte list option" where
  "utf8_char c =
    (if c < 0x80 then Some [of_nat c]
     else if c < 0x800 then
       Some [of_nat (0xC0 + c div 64), of_nat (0x80 + c mod 64)]
     else if c < 0x10000 then
       (if surrogate c then None
        else Some [of_nat (0xE0 + c div 4096), of_nat (0x80 + c div 64 mod 64),
                   of_nat (0x80 + c mod 64)])
     else if c < 0x110000 then
       Some [of_nat (0xF0 + c div 262144), of_nat (0x80 + c div 4096 mod 64),
             of_nat (0x80 + c div 64 mod 64), of_nat (0x80 + c mod 64)]
     else None)"

fun encode_utf8 :: "pystr \<Rightarrow> byte list result" where
  "encode_utf8 [] = Returns []"
| "encode_utf8 (c # cs) =
    (case utf8_char c of
       None \<Rightarrow> Raises UnicodeEncodeError
     | Some bs \<Rightarrow>
        (case encode_utf8 cs of
           Raises e \<Rightarrow> Raises e
         | Returns rest \<Rightarrow> Returns (bs @ rest)))"

subsection \<open>\<open>hashlib.sha1\<close> (FIPS 180-4)\<close>

text \<open>
  Padding: the byte \<open>0x80\<close>, zero bytes up to 56 modulo 64, then the length of the
  message in bits as a 64-bit big-endian number.
\<close>

definition be_bytes64 :: "64 word \<Rightarrow> byte list" where
  "be_bytes64 w = map (\<lambda>i. ucast (drop_bit (8 * (7 - i)) w)) [0..<8]"

definition be_bytes32 :: "word32 \<Rightarrow> byte list" where
  "be_bytes32 w = map (\<lambda>i. ucast (drop_bit (8 * (3 - i)) w)) [0..<4]"

definition be_word32 :: "byte list \<Rightarrow> word32" where
  "be_word32 bs = foldl (\<lambda>acc b. push_bit 8 acc OR ucast b) 0 bs"

definition sha1_pad :: "byte list \<Rightarrow> byte list" where
  "sha1_pad m =
     m @ [0x80] @ replicate ((119 - length m mod 64) mod 64) 0
       @ be_bytes64 (of_nat (8 * length m))"

fun chunks :: "nat \<Rightarrow> 'a list \<Rightarrow> 'a list list" where
  "chunks 0 xs = []"
| "chunks (Suc n) xs = take 64 xs # chunks n (drop 64 xs)"

definition blocks :: "byte list \<Rightarrow> byte list list" where
  "blocks m = chunks (length m div 64) m"

definition block_words :: "byte list \<Rightarrow> word32 list" where
  "block_words b = map (\<lambda>i. be_word32 (take 4 (drop (4 * i) b))) [0..<16]"

text \<open>The message schedule: sixteen words of the block, extended to eighty.\<close>

fun expand :: "nat \<Rightarrow> word32 list \<Rightarrow> word32 list" where
  "expand 0 w = w"
| "expand (Suc n) w =
     expand n (w @ [word_rotl 1 (w ! (length w - 3) XOR w ! (length w - 8)
                                 XOR w ! (length w - 14) XOR w ! (length w - 16))])"

definition schedule :: "byte list \<Rightarrow> word32 list" where
  "schedule b = expand 64 (block_words b)"

type_synonym sha1_state = "word32 \<times> word32 \<times> word32 \<times> word32 \<times> word32"

definition sha1_f :: "nat \<Rightarrow> word32 \<Rightarrow> word32 \<Rightarrow> word32 \<Rightarrow> word32" where
  "sha1_f t b c d =
    (if t < 20 then (b AND c) OR (NOT b AND d)
     else if t < 40 then b XOR c XOR d
     else if t < 60 then (b AND c) OR (b AND d) OR (c AND d)
     else b XOR c XOR d)"

definition sha1_k :: "nat \<Rightarrow> word32" where
  "sha1_k t =
    (if t < 20 then 0x5A827999
     else if t < 40 then 0x6ED9EBA1
     else if t < 60 then 0x8F1BBCDC
     else 0xCA62C1D6)"

definition sha1_round :: "word32 list \<Rightarrow> nat \<Rightarrow> sha1_state \<Rightarrow> sha1_state" where
  "sha1_round w t s =
    (case s of (a, b, c, d, e) \<Rightarrow>
       (word_rotl 5 a + sha1_f t b c d + e + sha1_k t + w ! t,
        a, word_rotl 30 b, c, d))"

definition sha1_block :: "sha1_state \<Rightarrow> byte list \<Rightarrow> sha1_state" where
  "sha1_block h b =
    (case h of (h0, h1, h2, h3, h4) \<Rightarrow>
      (case fold (sha1_round (schedule b)) [0..<80] h of (a, b', c, d, e) \<Rightarrow>
        (h0 + a, h1 + b', h2 + c, h3 + d, h4 + e)))"

definition sha1_init :: sha1_state where
  "sha1_init = (0x67452301, 0xEFCDAB89, 0x98BADCFE, 0x10325476, 0xC3D2E1F0)"

definition sha1 :: "byte list \<Rightarrow> byte list" where
  "sha1 m =
    (case foldl sha1_block sha1_init (blocks (sha1_pad m)) of (h0, h1, h2, h3, h4) \<Rightarrow>
       be_bytes32 h0 @ be_bytes32 h1 @ be_bytes32 h2 @ be_bytes32 h3 @ be_bytes32 h4)"

subsection \<open>\<open>hexdigest\<close> and \<open>make_id\<close>\<close>

definition hex_lower :: string where
  "hex_lower = ''0123456789abcdef''"

definition hex_byte :: "byte \<Rightarrow> string" where
  "hex_byte b = [hex_lower ! (unat b div 16), hex_lower ! (unat b mod 16)]"

definition hexdigest :: "byte list \<Rightarrow> pystr" where
  "hexdigest bs = ascii (concat (map hex_byte bs))"

text \<open>\<open>make_id(url)\<close>: \<open>hashlib.sha1(url.encode("utf-8")).hexdigest()\<close>.\<close>

definition make_id :: "pystr \<Rightarrow> pystr result" where
  "make_id url =
    (case encode_utf8 url of
       Raises e \<Rightarrow> Raises e
     | Returns bs \<Rightarrow> Returns (hexdigest (sha1 bs)))"

section \<open>What both scripts share\<close>

text \<open>
  The process environment, as far as the scripts read it (\<open>os.getenv\<close>: \<open>None\<close> when
  the variable is not set).
\<close>

record environ =
  SUPABASE_URL :: "pystr option"
  SUPABASE_SERVICE_ROLE_KEY :: "pystr option"
  SUPABASE_KEY :: "pystr option"
  MEMBER_ID :: "pystr option"
  API_URL :: "pystr option"

text \<open>\<open>not v\<close> for a value that is \<open>None\<close> or a string.\<close>

definition falsy :: "pystr option \<Rightarrow> bool" where
  "falsy v = (case v of None \<Rightarrow> True | Some s \<Rightarrow> s = [])"

text \<open>\<open>f"{v}"\<close> for such a value.\<close>

definition fmt :: "pystr option \<Rightarrow> pystr" where
  "fmt v = (case v of None \<Rightarrow> ascii ''None'' | Some s \<Rightarrow> s)"

text \<open>\<open>str(n)\<close> for a number that is not negative.\<close>

fun str_nat :: "nat \<Rightarrow> pystr" where
  "str_nat n = (if n < 10 then [48 + n] else str_nat (n div 10) @ [48 + n mod 10])"

declare str_nat.simps [simp del]

text \<open>
  The effects of a run: the lines on standard output, the records that reach the logging
  handler, and the outbound calls in the order they are issued. A call keeps the timeout
  the script passes, if any.
\<close>

datatype level = INFO | WARNING | ERROR

datatype call =
    RequestsPost pystr "(pystr \<times> pystr) list" "(pystr \<times> pystr) list" json "nat option"
  | RequestsGet pystr "nat option"
  | ClientUpsert pystr json "pystr list"

fun call_timeout :: "call \<Rightarrow> nat option" where
  "call_timeout (RequestsPost u ps hs body t) = t"
| "call_timeout (RequestsGet u t) = t"
| "call_timeout (ClientUpsert table rows on_conflict) = None"

record io =
  stdout :: "pystr list"
  log :: "(level \<times> pystr) list"
  calls :: "call list"

definition io0 :: io where
  "io0 = \<lparr>stdout = [], log = [], calls = []\<rparr>"

definition print :: "pystr \<Rightarrow> io \<Rightarrow> io" where
  "print line s = s\<lparr>stdout := stdout s @ [line]\<rparr>"

definition logging :: "level \<Rightarrow> pystr \<Rightarrow> io \<Rightarrow> io" where
  "logging lvl msg s = s\<lparr>log := log s @ [(lvl, msg)]\<rparr>"

definition issue :: "call \<Rightarrow> io \<Rightarrow> io" where
  "issue c s = s\<lparr>calls := calls s @ [c]\<rparr>"

text \<open>
  \<open>logging.basicConfig\<close> sets up the root logger, so the records a library logs while
  the script calls it come out through the same handler; \<open>emit\<close> adds them to the log.
\<close>

definition emit :: "(level \<times> pystr) list \<Rightarrow> io \<Rightarrow> io" where
  "emit records s = s\<lparr>log := log s @ records\<rparr>"

text \<open>
  How the interpreter ends: status 0 when the module runs to its end, the status of a
  \<open>SystemExit\<close>, and 1 after a traceback for any other exception.
\<close>

definition script_exit :: "'a result \<Rightarrow> nat" where
  "script_exit r =
    (case r of
       Returns v \<Rightarrow> 0
     | Raises (SystemExit code) \<Rightarrow> code
     | Raises e \<Rightarrow> 1)"

section \<open>The first script: \<open>mymall_scraper.py\<close>\<close>

record Product =
  id' :: pystr
  title :: pystr
  url :: pystr
  price :: "int option"
  currency :: pystr
  image :: "pystr option"
  stock :: "int option"
  source :: pystr

definition DEFAULT_MEMBER :: pystr where
  "DEFAULT_MEMBER = ascii ''af000049855''"

text \<open>\<open>dataclasses.asdict\<close>: the fields in declaration order; \<open>None\<close> is JSON's \<open>null\<close>.\<close>

definition json_int :: "int option \<Rightarrow> json" where
  "json_int v = (case v of None \<Rightarrow> JNull | Some n \<Rightarrow> JInt n)"

definition json_str :: "pystr option \<Rightarrow> json" where
  "json_str v = (case v of None \<Rightarrow> JNull | Some s \<Rightarrow> JStr s)"

definition asdict :: "Product \<Rightarrow> (pystr \<times> json) list" where
  "asdict p =
    [(ascii ''id'', JStr (id' p)),
     (ascii ''title'', JStr (title p)),
     (ascii ''url'', JStr (url p)),
     (ascii ''price'', json_int (price p)),
     (ascii ''currency'', JStr (currency p)),
     (ascii ''image'', json_str (image p)),
     (ascii ''stock'', json_int (stock p)),
     (ascii ''source'', JStr (source p))]"

text \<open>
  \<open>SUPABASE_HEADERS\<close>, built at import: \<open>KEY or ""\<close> and
  \<open>f"Bearer {KEY}" if KEY else ""\<close>.
\<close>

definition SUPABASE_HEADERS :: "environ \<Rightarrow> (pystr \<times> pystr) list" where
  "SUPABASE_HEADERS env =
    [(ascii ''apikey'',
        (if falsy (SUPABASE_SERVICE_ROLE_KEY env) then [] else fmt (SUPABASE_SERVICE_ROLE_KEY env))),
     (ascii ''Authorization'',
        (if falsy (SUPABASE_SERVICE_ROLE_KEY env) then []
         else ascii ''Bearer '' @ fmt (SUPABASE_SERVICE_ROLE_KEY env))),
     (ascii ''Content-Type'', ascii ''application/json'')]"

text \<open>
  What \<open>requests.post\<close> does is the world's choice: it raises (with the text of the
  exception), or it returns a response with a status code, a body and the text of the
  \<open>HTTPError\<close> that \<open>raise_for_status\<close> would raise for it.
\<close>

datatype post_outcome = PostRaises pystr | PostResponse nat pystr pystr

text \<open>The lines the first script prints.\<close>

definition info_no_env :: pystr where
  "info_no_env = ascii ''[INFO] '' @ [0x672A, 0x8A2D, 0x5B9A] @ ascii '' SUPABASE_URL / SUPABASE_SERVICE_ROLE_KEY''
     @ [0xFF0C, 0x7565, 0x904E, 0x5BEB, 0x5165] @ ascii '' Supabase''"

definition info_no_requests :: pystr where
  "info_no_requests = ascii ''[INFO] '' @ [0x672A, 0x5B89, 0x88DD] @ ascii '' requests''
     @ [0xFF0C, 0x7565, 0x904E, 0x5BEB, 0x5165] @ ascii '' Supabase''
     @ [0xFF08] @ ascii ''pip install requests '' @ [0x53EF, 0x555F, 0x7528, 0xFF09]"

definition upsert_ok_line :: "nat \<Rightarrow> pystr" where
  "upsert_ok_line n = ascii ''[Supabase] upsert '' @ str_nat n @ ascii '' rows '' @ [0x6210, 0x529F]"

definition upsert_failed_line :: "pystr \<Rightarrow> pystr" where
  "upsert_failed_line e = ascii ''[Supabase] upsert '' @ [0x5931, 0x6557] @ ascii '': '' @ e"

definition response_line :: "nat \<Rightarrow> pystr \<Rightarrow> pystr" where
  "response_line status txt =
     ascii ''[Supabase] response: '' @ str_nat status @ ascii '' '' @ take 400 txt"

definition summary_line :: "nat \<Rightarrow> pystr" where
  "summary_line n = [0x2705] @ ascii '' '' @ [0x57F7, 0x884C, 0x6210, 0x529F, 0xFF0C, 0x5171]
     @ ascii '' '' @ str_nat n @ ascii '' '' @ [0x7B46, 0x5546, 0x54C1]"

definition title_line :: "Product \<Rightarrow> pystr" where
  "title_line p = ascii ''- '' @ title p"

text \<open>
  \<open>supabase_upsert_products\<close>. The \<open>try\<close> covers the post, \<open>raise_for_status\<close> (which
  raises for a status from 400 to 599) and the success line; its handler prints the
  failure, then the response when there is one (\<open>r\<close> is unbound if the post itself
  raised, and the inner handler passes). \<open>requests_module\<close> tells whether the import of
  \<open>requests\<close> succeeded.
\<close>

definition supabase_upsert_products ::
  "environ \<Rightarrow> bool \<Rightarrow> post_outcome \<Rightarrow> Product list \<Rightarrow> io \<Rightarrow> unit result \<times> io" where
  "supabase_upsert_products env requests_module world products s =
    (if falsy (SUPABASE_URL env) \<or> falsy (SUPABASE_SERVICE_ROLE_KEY env) then
       (Returns (), print info_no_env s)
     else if \<not> requests_module then
       (Returns (), print info_no_requests s)
     else
       (let url = fmt (SUPABASE_URL env) @ ascii ''/rest/v1/products'';
            rows = map asdict products;
            headers = AList.update (ascii ''Prefer'')
                        (ascii ''resolution=merge-duplicates,return=representation'')
                        (SUPABASE_HEADERS env);
            params = [(ascii ''on_conflict'', ascii ''id'')];
            s1 = issue (RequestsPost url params headers (JArray (map JObject rows)) (Some 30)) s
        in (case world of
              PostRaises e \<Rightarrow> (Returns (), print (upsert_failed_line e) s1)
            | PostResponse status txt e \<Rightarrow>
                if 400 \<le> status \<and> status < 600 then
                  (Returns (), print (response_line status txt) (print (upsert_failed_line e) s1))
                else (Returns (), print (upsert_ok_line (length rows)) s1))))"

text \<open>
  \<open>parser.parse_args(argv)\<close> is \<open>argparse\<close>'s: it returns the namespace, or leaves
  through \<open>SystemExit\<close>: with status 2 for an argument it refuses (its message goes to
  standard error), with status 0 after \<open>--help\<close> (the help text goes to standard output).
  \<open>ParserExit\<close> carries the status and the lines put on standard output.
\<close>

record namespace =
  mode :: pystr
  insert' :: bool

datatype parse_result = Parsed namespace | ParserExit nat "pystr list"

definition scrape_product :: "pystr \<Rightarrow> Product" where
  "scrape_product i =
    \<lparr>id' = i, title = [0x6E2C, 0x8A66, 0x5546, 0x54C1],
     url = ascii ''https://www.mymall.com.tw/pro-123?member='' @ DEFAULT_MEMBER,
     price = Some 299, currency = ascii ''TWD'', image = None, stock = Some 100,
     source = ascii ''scrape''\<rparr>"

definition api_product :: "pystr \<Rightarrow> Product" where
  "api_product i =
    \<lparr>id' = i, title = ascii ''API '' @ [0x6E2C, 0x8A66, 0x5546, 0x54C1],
     url = ascii ''https://www.mymall.com.tw/pro-456'',
     price = Some 499, currency = ascii ''TWD'', image = None, stock = Some 50,
     source = ascii ''api''\<rparr>"

text \<open>The list \<open>main\<close> builds: one record per mode, its id from \<open>make_id\<close> of its url.\<close>

definition build_products :: "namespace \<Rightarrow> Product list result" where
  "build_products args =
    (if mode args = ascii ''scrape'' then
       (case make_id (ascii ''https://www.mymall.com.tw/pro-123?member='' @ DEFAULT_MEMBER) of
          Raises e \<Rightarrow> Raises e
        | Returns i \<Rightarrow> Returns [scrape_product i])
     else if mode args = ascii ''api'' then
       (case make_id (ascii ''https://www.mymall.com.tw/pro-456'') of
          Raises e \<Rightarrow> Raises e
        | Returns i \<Rightarrow> Returns [api_product i])
     else Returns [])"

definition main ::
  "environ \<Rightarrow> bool \<Rightarrow> post_outcome \<Rightarrow> parse_result \<Rightarrow> io \<Rightarrow> int result \<times> io" where
  "main env requests_module world parsed s =
    (case parsed of
       ParserExit code out \<Rightarrow> (Raises (SystemExit code), s\<lparr>stdout := stdout s @ out\<rparr>)
     | Parsed args \<Rightarrow>
        (case build_products args of
           Raises e \<Rightarrow> (Raises e, s)
         | Returns products \<Rightarrow>
            (case (if insert' args \<and> products \<noteq> []
                   then supabase_upsert_products env requests_module world products s
                   else (Returns (), s)) of
               (Raises e, s1) \<Rightarrow> (Raises e, s1)
             | (Returns u, s1) \<Rightarrow>
                 (Returns 0,
                  fold (\<lambda>p. print (title_line p)) products
                    (print (summary_line (length products)) s1)))))"

section \<open>The second script: \<open>scripts/sync_products.py\<close>\<close>

text \<open>Truth value and \<open>len\<close> of a value that came out of a JSON document.\<close>

fun truthy :: "json \<Rightarrow> bool" where
  "truthy JNull = False"
| "truthy (JBool b) = b"
| "truthy (JInt n) = (n \<noteq> 0)"
| "truthy (JStr t) = (t \<noteq> [])"
| "truthy (JArray xs) = (xs \<noteq> [])"
| "truthy (JObject kvs) = (kvs \<noteq> [])"

fun py_len :: "json \<Rightarrow> nat result" where
  "py_len (JStr t) = Returns (length t)"
| "py_len (JArray xs) = Returns (length xs)"
| "py_len (JObject kvs) = Returns (length kvs)"
| "py_len v = Raises TypeError"

text \<open>
  What the outside does in a run of the second script: \<open>create_client\<close> may raise;
  the GET (with \<open>raise_for_status\<close> and \<open>response.json()\<close>) raises an exception with
  its text or yields the parsed body; the store client's \<open>execute()\<close> raises or returns
  a response with its \<open>data\<close> and, if the response object has one, the text of its
  \<open>error\<close> attribute. Before it does either, the client's libraries may log records
  of their own (its HTTP library logs each answered request at level INFO).
\<close>

datatype get_outcome = GetRaises exn pystr | GetJson json

datatype attribute = NoAttribute | Attribute pystr

datatype upsert_outcome = UpsertRaises exn | UpsertResponse json attribute

record execute =
  client_records :: "(level \<times> pystr) list"
  outcome :: upsert_outcome

record sync_world =
  create_client :: "exn option"
  api :: get_outcome
  store :: execute

text \<open>
  \<open>fetch_products\<close>: the handler is for \<open>requests.exceptions.RequestException\<close> only;
  \<open>.get('items', [])\<close> needs a dict.
\<close>

definition fetch_products :: "environ \<Rightarrow> get_outcome \<Rightarrow> io \<Rightarrow> json result \<times> io" where
  "fetch_products env g s =
    (let s1 = logging INFO (ascii ''Fetching products from API: '' @ fmt (API_URL env)) s;
         s2 = issue (RequestsGet (fmt (API_URL env)) None) s1
     in (case g of
           GetRaises e msg \<Rightarrow>
             if e = RequestException then
               (Returns (JArray []),
                logging ERROR (ascii ''Error fetching products from API: '' @ msg) s2)
             else (Raises e, s2)
         | GetJson (JObject kvs) \<Rightarrow>
             (Returns (case map_of kvs (ascii ''items'') of None \<Rightarrow> JArray [] | Some v \<Rightarrow> v), s2)
         | GetJson v \<Rightarrow> (Raises AttributeError, s2)))"

text \<open>
  The loop \<open>for product in products: product['member_id'] = MEMBER_ID\<close> changes the
  records in place, so the model returns the list as the loop leaves it, with the
  exception that stopped it, if any. Only a dict takes the assignment.
\<close>

fun set_member_id :: "json \<Rightarrow> json list \<Rightarrow> json list \<times> exn option" where
  "set_member_id m [] = ([], None)"
| "set_member_id m (JObject kvs # ps) =
    (case set_member_id m ps of
       (ps', e) \<Rightarrow> (JObject (AList.update (ascii ''member_id'') m kvs) # ps', e))"
| "set_member_id m (p # ps) = (p # ps, Some TypeError)"

text \<open>
  \<open>upsert_products\<close>, with the list as it leaves it. Iterating a dict or a string
  yields strings, and a number is not iterable: the loop raises \<open>TypeError\<close> for
  anything but a list. No statement of the function is inside a \<open>try\<close>.
\<close>

definition upsert_products ::
  "environ \<Rightarrow> execute \<Rightarrow> json \<Rightarrow> io \<Rightarrow> unit result \<times> json \<times> io" where
  "upsert_products env world products s =
    (if \<not> truthy products then
       (Returns (), products, logging INFO (ascii ''No products to upsert.'') s)
     else
       (case products of
          JArray ps \<Rightarrow>
            (case set_member_id (json_str (MEMBER_ID env)) ps of
               (ps', Some e) \<Rightarrow> (Raises e, JArray ps', s)
             | (ps', None) \<Rightarrow>
                (let s1 = logging INFO (ascii ''Upserting '' @ str_nat (length ps')
                                          @ ascii '' products into Supabase...'') s;
                     s2 = emit (client_records world)
                            (issue (ClientUpsert (ascii ''products'') (JArray ps') [ascii ''id''])
                               s1)
                 in (case outcome world of
                       UpsertRaises e \<Rightarrow> (Raises e, JArray ps', s2)
                     | UpsertResponse data err \<Rightarrow>
                         if truthy data then
                           (case py_len data of
                              Raises e \<Rightarrow> (Raises e, JArray ps', s2)
                            | Returns n \<Rightarrow>
                                (Returns (), JArray ps',
                                 logging INFO (ascii ''Successfully upserted '' @ str_nat n
                                                 @ ascii '' products.'') s2))
                         else
                           (case err of
                              NoAttribute \<Rightarrow> (Raises AttributeError, JArray ps', s2)
                            | Attribute txt \<Rightarrow>
                                (Returns (), JArray ps',
                                 logging ERROR (ascii ''Failed to upsert products. Response: ''
                                                  @ txt) s2)))))
        | v \<Rightarrow> (Raises TypeError, v, s)))"

text \<open>
  The module, top to bottom: the check of the four variables (\<open>exit(1)\<close>), the client,
  then the \<open>__main__\<close> block.
\<close>

definition sync_products :: "environ \<Rightarrow> sync_world \<Rightarrow> io \<Rightarrow> unit result \<times> io" where
  "sync_products env world s =
    (if \<not> list_all (\<lambda>v. \<not> falsy v)
              [SUPABASE_URL env, SUPABASE_KEY env, MEMBER_ID env, API_URL env] then
       (Raises (SystemExit 1),
        logging ERROR (ascii ''Missing one or more required environment variables.'') s)
     else
       (case create_client world of
          Some e \<Rightarrow> (Raises e, s)
        | None \<Rightarrow>
           (case fetch_products env (api world) s of
              (Raises e, s1) \<Rightarrow> (Raises e, s1)
            | (Returns products, s1) \<Rightarrow>
                if truthy products then
                  (case upsert_products env (store world) products s1 of
                     (r, products', s2) \<Rightarrow> (r, s2))
                else (Returns (), logging WARNING (ascii ''No products fetched. Exiting.'') s1))))"

section \<open>Vocabulary for the properties\<close>

text \<open>The ids of the two records the first script can build.\<close>

definition scrape_id :: pystr where
  "scrape_id =
     hexdigest (sha1 (map of_char ''https://www.mymall.com.tw/pro-123?member=af000049855''))"

definition api_id :: pystr where
  "api_id = hexdigest (sha1 (map of_char ''https://www.mymall.com.tw/pro-456''))"

text \<open>
  A reference for the encoder, not part of the program: UTF-8 as RFC 3629 defines it,
  read from the bytes back to the code points. It accepts the shortest form only, no
  surrogate and nothing beyond U+10FFFF.
\<close>

definition continuation :: "byte \<Rightarrow> bool" where
  "continuation b \<longleftrightarrow> 0x80 \<le> unat b \<and> unat b < 0xC0"

fun decode_utf8 :: "byte list \<Rightarrow> pystr option" where
  "decode_utf8 [] = Some []"
| "decode_utf8 (b0 # bs) =
    (if unat b0 < 0x80 then map_option ((#) (unat b0)) (decode_utf8 bs)
     else if unat b0 < 0xC0 then None
     else if unat b0 < 0xE0 then
       (case bs of
          b1 # r \<Rightarrow>
            (let c = (unat b0 - 0xC0) * 64 + (unat b1 - 0x80)
             in if continuation b1 \<and> 0x80 \<le> c
                then map_option ((#) c) (decode_utf8 r) else None)
        | _ \<Rightarrow> None)
     else if unat b0 < 0xF0 then
       (case bs of
          b1 # b2 # r \<Rightarrow>
            (let c = (unat b0 - 0xE0) * 4096 + (unat b1 - 0x80) * 64 + (unat b2 - 0x80)
             in if continuation b1 \<and> continuation b2 \<and> 0x800 \<le> c \<and> \<not> surrogate c
                then map_option ((#) c) (decode_utf8 r) else None)
        | _ \<Rightarrow> None)
     else if unat b0 < 0xF8 then
       (case bs of
          b1 # b2 # b3 # r \<Rightarrow>
            (let c = (unat b0 - 0xF0) * 262144 + (unat b1 - 0x80) * 4096
                       + (unat b2 - 0x80) * 64 + (unat b3 - 0x80)
             in if continuation b1 \<and> continuation b2 \<and> continuation b3
                   \<and> 0x10000 \<le> c \<and> c < 0x110000
                then map_option ((#) c) (decode_utf8 r) else None)
        | _ \<Rightarrow> None)
     else None)"

text \<open>
  Messages whose digests are known, used to check \<open>sha1\<close>: the two examples of FIPS 180
  (\<open>abc\<close>, of one block, and the 56 letters \<open>abcdbcde...nopq\<close>, of two), the urls of the
  two records the first script builds, and the UTF-8 bytes of a string with code points
  of one, two, three and four bytes. For each block, its bytes after padding and the
  eighty words of its message schedule.
\<close>

definition abc_block :: "byte list" where
  "abc_block =
    [0x61, 0x62, 0x63, 0x80, 0x00, 0x00, 0x00, 0x00, 0x00, 0x00, 0x00, 0x00, 0x00, 0x00, 0x00,
     0x00, 0x00, 0x00, 0x00, 0x00, 0x00, 0x00, 0x00, 0x00, 0x00, 0x00, 0x00, 0x00, 0x00, 0x00,
     0x00, 0x00, 0x00, 0x00, 0x00, 0x00, 0x00, 0x00, 0x00, 0x00, 0x00, 0x00, 0x00, 0x00, 0x00,
     0x00, 0x00, 0x00, 0x00, 0x00, 0x00, 0x00, 0x00, 0x00, 0x00, 0x00, 0x00, 0x00, 0x00, 0x00,
     0x00, 0x00, 0x00, 0x18]"

definition abc_schedule :: "word32 list" where
  "abc_schedule =
    [0x61626380, 0x00000000, 0x00000000, 0x00000000, 0x00000000, 0x00000000, 0x00000000,
     0x00000000, 0x00000000, 0x00000000, 0x00000000, 0x00000000, 0x00000000, 0x00000000,
     0x00000000, 0x00000018, 0xC2C4C700, 0x00000000, 0x00000030, 0x85898E01, 0x00000000,
     0x00000060, 0x0B131C03, 0x00000030, 0x85898EC1, 0x16263806, 0x00000000, 0x00000180,
     0x2C4C700C, 0x000000F0, 0x93AFB507, 0x5898E048, 0x8E9A9202, 0x00000600, 0xB131C0F0,
     0x16263BC6, 0x4EBED41E, 0x626380A1, 0x16263806, 0x000018C0, 0xD2E138C4, 0x00000F00,
     0x3AFB5079, 0x898E04E5, 0xE2BA3C2B, 0x000060C0, 0x053A37CD, 0x74458547, 0xDA9415ED,
     0x26380A16, 0x626383A1, 0x4EBF54DE, 0x3835B44B, 0x0000F600, 0x1E84C7A3, 0x98E04D98,
     0x651D16A0, 0x62658CA1, 0x458544D6, 0x44584CB7, 0x7BA06619, 0x6380AEA2, 0x0AE55269,
     0x627B49A1, 0x7CD45C9D, 0x000F0000, 0xFB50753A, 0xEC6765E8, 0xBA3C2BE2, 0x0060C000,
     0x3A37CD05, 0x458546F4, 0xB8599DD6, 0x380A1A26, 0x01E02203, 0xE7CC3456, 0xE6E60B69,
     0x00F60A00, 0x5795EF4F, 0x822E0879]"

definition fips_block_1 :: "byte list" where
  "fips_block_1 =
    [0x61, 0x62, 0x63, 0x64, 0x62, 0x63, 0x64, 0x65, 0x63, 0x64, 0x65, 0x66, 0x64, 0x65, 0x66,
     0x67, 0x65, 0x66, 0x67, 0x68, 0x66, 0x67, 0x68, 0x69, 0x67, 0x68, 0x69, 0x6A, 0x68, 0x69,
     0x6A, 0x6B, 0x69, 0x6A, 0x6B, 0x6C, 0x6A, 0x6B, 0x6C, 0x6D, 0x6B, 0x6C, 0x6D, 0x6E, 0x6C,
     0x6D, 0x6E, 0x6F, 0x6D, 0x6E, 0x6F, 0x70, 0x6E, 0x6F, 0x70, 0x71, 0x80, 0x00, 0x00, 0x00,
     0x00, 0x00, 0x00, 0x00]"

definition fips_schedule_1 :: "word32 list" where
  "fips_schedule_1 =
    [0x61626364, 0x62636465, 0x63646566, 0x64656667, 0x65666768, 0x66676869, 0x6768696A,
     0x68696A6B, 0x696A6B6C, 0x6A6B6C6D, 0x6B6C6D6E, 0x6C6D6E6F, 0x6D6E6F70, 0x6E6F7071,
     0x80000000, 0x00000000, 0x0A063A3E, 0xD8DADCDF, 0xDADCDEC0, 0xC8D2B4BE, 0x6F757B5B,
     0x757B5967, 0x8DA16D70, 0xDAEEFABA, 0xFAF6CAB6, 0xA6FB675A, 0x0C604CC8, 0x604CC02C,
     0x49C0E6E2, 0x2EE8CBBC, 0xCFD72EC4, 0x97E9810E, 0x0989CBE8, 0xF24843FE, 0x5C40D0BA,
     0xA8D9CC3B, 0xB2B9666E, 0xBA7B71B7, 0x20B28A72, 0xB28AF500, 0x8AC87842, 0x289ADDF4,
     0x56D51F21, 0xD96B7FD2, 0x3868E778, 0xAB5E4848, 0x7F0E2118, 0xDE87A111, 0xE8BE56B0,
     0x1A0AE652, 0xCD5611C8, 0x46EF29DC, 0x60D3DA6D, 0xDDF3BA6E, 0x2737F5E9, 0x4888A710,
     0xD2A1177B, 0x9999633B, 0xD6C69D03, 0xCCF6127B, 0x7C58FE6D, 0xFDD99C68, 0xF8E32074,
     0xE0BA3C7D, 0x152198D6, 0x7B3F1982, 0x37F2D5B7, 0x8596323E, 0x810790D6, 0xBEA0A942,
     0x11C7E1B1, 0x6158D101, 0x5FCD77D9, 0x7F2F12E6, 0xF868CFB1, 0xD6E997E9, 0xF526B852,
     0xB7578DCC, 0x55D99DF4, 0x1FF69958]"

definition fips_block_2 :: "byte list" where
  "fips_block_2 =
    [0x00, 0x00, 0x00, 0x00, 0x00, 0x00, 0x00, 0x00, 0x00, 0x00, 0x00, 0x00, 0x00, 0x00, 0x00,
     0x00, 0x00, 0x00, 0x00, 0x00, 0x00, 0x00, 0x00, 0x00, 0x00, 0x00, 0x00, 0x00, 0x00, 0x00,
     0x00, 0x00, 0x00, 0x00, 0x00, 0x00, 0x00, 0x00, 0x00, 0x00, 0x00, 0x00, 0x00, 0x00, 0x00,
     0x00, 0x00, 0x00, 0x00, 0x00, 0x00, 0x00, 0x00, 0x00, 0x00, 0x00, 0x00, 0x00, 0x00, 0x00,
     0x00, 0x00, 0x01, 0xC0]"

definition fips_schedule_2 :: "word32 list" where
  "fips_schedule_2 =
    [0x00000000, 0x00000000, 0x00000000, 0x00000000, 0x00000000, 0x00000000, 0x00000000,
     0x00000000, 0x00000000, 0x00000000, 0x00000000, 0x00000000, 0x00000000, 0x00000000,
     0x00000000, 0x000001C0, 0x00000000, 0x00000000, 0x00000380, 0x00000000, 0x00000000,
     0x00000700, 0x00000000, 0x00000380, 0x00000E00, 0x00000000, 0x00000000, 0x00001C00,
     0x00000000, 0x00000D80, 0x00003800, 0x00000480, 0x00000000, 0x00007000, 0x00000E00,
     0x00003600, 0x0000E000, 0x00000E00, 0x00000000, 0x0001CE00, 0x00000000, 0x0000D800,
     0x00038000, 0x00004F00, 0x00000000, 0x00070E00, 0x0000EE00, 0x00037500, 0x000E0000,
     0x0000E000, 0x00003600, 0x001CEE00, 0x00000000, 0x000DF000, 0x00380000, 0x0004C600,
     0x0000E000, 0x0070EE00, 0x000EE000, 0x00369E00, 0x00E00000, 0x000ED600, 0x0000E000,
     0x01CEA600, 0x00000000, 0x00D80000, 0x0380E000, 0x004F0000, 0x00000000, 0x070E0000,
     0x00EE0000, 0x03751C00, 0x0E000000, 0x00E0E000, 0x00363800, 0x1CEE9000, 0x00000000,
     0x0DF09000, 0x3800E000, 0x04C77400]"

definition api_block :: "byte list" where
  "api_block =
    [0x68, 0x74, 0x74, 0x70, 0x73, 0x3A, 0x2F, 0x2F, 0x77, 0x77, 0x77, 0x2E, 0x6D, 0x79, 0x6D,
     0x61, 0x6C, 0x6C, 0x2E, 0x63, 0x6F, 0x6D, 0x2E, 0x74, 0x77, 0x2F, 0x70, 0x72, 0x6F, 0x2D,
     0x34, 0x35, 0x36, 0x80, 0x00, 0x00, 0x00, 0x00, 0x00, 0x00, 0x00, 0x00, 0x00, 0x00, 0x00,
     0x00, 0x00, 0x00, 0x00, 0x00, 0x00, 0x00, 0x00, 0x00, 0x00, 0x00, 0x00, 0x00, 0x00, 0x00,
     0x00, 0x00, 0x01, 0x08]"

definition api_schedule :: "word32 list" where
  "api_schedule =
    [0x68747470, 0x733A2F2F, 0x7777772E, 0x6D796D61, 0x6C6C2E63, 0x6F6D2E74, 0x772F7072,
     0x6F2D3435, 0x36800000, 0x00000000, 0x00000000, 0x00000000, 0x00000000, 0x00000000,
     0x00000000, 0x00000108, 0x530606BC, 0x3C86849C, 0x3636B08A, 0xA2248B52, 0x4F8BB51A,
     0x6CED5596, 0xC717F641, 0x414D004E, 0x12D6A654, 0xF722E5BB, 0xEEF76188, 0x61E45A0D,
     0x7152A143, 0x04346A2D, 0xEBEB55E1, 0x19324932, 0xE7A4F49E, 0x04D77F29, 0x1CF05A55,
     0x9112E0AE, 0xFA333A63, 0x6AC8CB40, 0x5E71CAB5, 0xAADD2D48, 0xE29BF004, 0x98C01455,
     0x53116FAC, 0x2CB24114, 0xF095B529, 0x49BF0FE6, 0xFD1855BC, 0x8F5B5CF4, 0xA0E0A252,
     0xE03BBCDD, 0x7512A6DC, 0xEF119150, 0x69D9F245, 0xF9709E65, 0x5DC7FCBB, 0xA93F2F59,
     0xD035473F, 0x131C2A4E, 0xFF52A600, 0xB453313A, 0xEE90713C, 0x818CD6EF, 0x68D874DF,
     0x519F7C98, 0x08972ABD, 0xE9DCE638, 0x640D1C03, 0x554A2965, 0x66A533F4, 0x6B9CF7A1,
     0x60C1CC7D, 0x1A3294F7, 0x98D87846, 0x5CA46262, 0xDFFABF90, 0xF09B6DED, 0x7892A8EB,
     0xC8EBC48C, 0xE02BFFE5, 0xB5C74D79]"

definition scrape_block :: "byte list" where
  "scrape_block =
    [0x68, 0x74, 0x74, 0x70, 0x73, 0x3A, 0x2F, 0x2F, 0x77, 0x77, 0x77, 0x2E, 0x6D, 0x79, 0x6D,
     0x61, 0x6C, 0x6C, 0x2E, 0x63, 0x6F, 0x6D, 0x2E, 0x74, 0x77, 0x2F, 0x70, 0x72, 0x6F, 0x2D,
     0x31, 0x32, 0x33, 0x3F, 0x6D, 0x65, 0x6D, 0x62, 0x65, 0x72, 0x3D, 0x61, 0x66, 0x30, 0x30,
     0x30, 0x30, 0x34, 0x39, 0x38, 0x35, 0x35, 0x80, 0x00, 0x00, 0x00, 0x00, 0x00, 0x00, 0x00,
     0x00, 0x00, 0x01, 0xA0]"

definition scrape_schedule :: "word32 list" where
  "scrape_schedule =
    [0x68747470, 0x733A2F2F, 0x7777772E, 0x6D796D61, 0x6C6C2E63, 0x6F6D2E74, 0x772F7072,
     0x6F2D3132, 0x333F6D65, 0x6D626572, 0x3D616630, 0x30303034, 0x39383535, 0x80000000,
     0x00000000, 0x000001A0, 0x5878DC77, 0xE6424E78, 0x4CF47DBA, 0xD4B95EAC, 0x88724AB9,
     0x9968C5F9, 0x21528777, 0x147A3EB3, 0x9E9C25B7, 0x34853893, 0xB9AE2018, 0xF42A965F,
     0x0B9E8E3F, 0x418DC883, 0x1A019ABF, 0xF34DFEA9, 0x973A99F3, 0x38FF65F0, 0x1CCBD365,
     0x5D8329F2, 0x34824C03, 0xA0A9C159, 0xF098231B, 0xCE616915, 0x2142BA0A, 0x1191D04E,
     0xC13428AE, 0x92CD9A49, 0x6919119A, 0xA6BBBFBB, 0xDEDD743D, 0xD995C7AC, 0x18109E4E,
     0x5461D0E3, 0x61D0E0C8, 0xEFEFD958, 0xF2C55CC3, 0x5347EE7F, 0xC1D068E9, 0xE9404469,
     0x5643C52B, 0x2DDBE41A, 0x417B3B2A, 0x1BB47303, 0xD1B5BAFC, 0xDA255A84, 0x3953E332,
     0x6A03D3B5, 0xEB4DC253, 0x5E0C1D27, 0x70DAA929, 0x98A30CEE, 0x795927E3, 0x21F0B376,
     0x6CC6843C, 0xAF82A84B, 0xBB0B1E49, 0x094A1C04, 0x9F2D0168, 0xC4727641, 0x31EAC453,
     0x1DF6765E, 0xF555A638, 0x54CF4515]"

definition mixed_block :: "byte list" where
  "mixed_block =
    [0x24, 0xC2, 0xA2, 0xE2, 0x82, 0xAC, 0xE6, 0xB8, 0xAC, 0xF0, 0x90, 0x8D, 0x88, 0x80, 0x00,
     0x00, 0x00, 0x00, 0x00, 0x00, 0x00, 0x00, 0x00, 0x00, 0x00, 0x00, 0x00, 0x00, 0x00, 0x00,
     0x00, 0x00, 0x00, 0x00, 0x00, 0x00, 0x00, 0x00, 0x00, 0x00, 0x00, 0x00, 0x00, 0x00, 0x00,
     0x00, 0x00, 0x00, 0x00, 0x00, 0x00, 0x00, 0x00, 0x00, 0x00, 0x00, 0x00, 0x00, 0x00, 0x00,
     0x00, 0x00, 0x00, 0x68]"

definition mixed_schedule :: "word32 list" where
  "mixed_schedule =
    [0x24C2A2E2, 0x82ACE6B8, 0xACF0908D, 0x88800000, 0x00000000, 0x00000000, 0x00000000,
     0x00000000, 0x00000000, 0x00000000, 0x00000000, 0x00000000, 0x00000000, 0x00000000,
     0x00000000, 0x00000068, 0x106464DF, 0x1459CD70, 0x59E121CB, 0x31C8C9BF, 0x28B39AE0,
     0xB3C24396, 0x6391937E, 0x51673510, 0x474C4E93, 0xEF90BC1C, 0x110C29B6, 0xED090E58,
     0x8E464DF9, 0x459CD491, 0x3DF9F3F3, 0x96F16BE3, 0x96ABBE2C, 0xEFF09641, 0xED5FF2FD,
     0xF35074BB, 0x5529A44C, 0x94CCA1D4, 0xD4E8B54B, 0xFA5E8D46, 0xA84EF1BA, 0x7303229C,
     0x109637E9, 0xE716BF91, 0x2B2A71B5, 0xAE6E529E, 0x31588E0B, 0x50EA02A3, 0xFBA9DFEA,
     0xBDF69CDA, 0xF014C7F7, 0xF6476A28, 0x2E3BF8D0, 0x61D173F6, 0x777341A5, 0xEF18AB53,
     0x4540D49E, 0xBD2080E4, 0x496055F0, 0xF4FEA773, 0x12D30F15, 0xAC6AEC77, 0x92F96E6E,
     0x21AE747E, 0xC52E41E9, 0xC8D030F0, 0x6DC23D53, 0x4C8DFE89, 0x06970D21, 0x9EC21302,
     0xD88E0BB9, 0xEA02A5D0, 0xAF99A70A, 0xB30039BC, 0xB8E784CD, 0x7700250F, 0x6B7AABCC,
     0x57C21F8D, 0xF0B20263, 0xD00C9524]"

text \<open>The value of a key of a JSON object, and a record after the loop of \<open>upsert_products\<close>.\<close>

fun field :: "pystr \<Rightarrow> json \<Rightarrow> json option" where
  "field k (JObject kvs) = map_of kvs k"
| "field k v = None"

fun keys :: "json \<Rightarrow> pystr list" where
  "keys (JObject kvs) = map fst kvs"
| "keys v = []"

fun is_object :: "json \<Rightarrow> bool" where
  "is_object (JObject kvs) = True"
| "is_object v = False"

fun with_member_id :: "json \<Rightarrow> json \<Rightarrow> json" where
  "with_member_id m (JObject kvs) = JObject (AList.update (ascii ''member_id'') m kvs)"
| "with_member_id m v = v"

definition product_fields :: "pystr list" where
  "product_fields =
     map ascii [''id'', ''title'', ''url'', ''price'', ''currency'', ''image'', ''stock'', ''source'']"

text \<open>
  The one POST the first script can issue for a list of records, and the one upsert the
  second script can issue for a list of fetched records.
\<close>

definition scraper_post :: "environ \<Rightarrow> Product list \<Rightarrow> call" where
  "scraper_post env products =
     RequestsPost (fmt (SUPABASE_URL env) @ ascii ''/rest/v1/products'')
       [(ascii ''on_conflict'', ascii ''id'')]
       (AList.update (ascii ''Prefer'')
          (ascii ''resolution=merge-duplicates,return=representation'')
          (SUPABASE_HEADERS env))
       (JArray (map (JObject \<circ> asdict) products)) (Some 30)"

definition sync_upsert :: "environ \<Rightarrow> json list \<Rightarrow> call" where
  "sync_upsert env fetched =
     ClientUpsert (ascii ''products'')
       (JArray (map (with_member_id (json_str (MEMBER_ID env))) fetched)) [ascii ''id'']"

text \<open>Concrete environments, source records and worlds, for the runs examined below.\<close>

definition env_unset :: environ where
  "env_unset = \<lparr>SUPABASE_URL = None, SUPABASE_SERVICE_ROLE_KEY = None, SUPABASE_KEY = None,
                 MEMBER_ID = None, API_URL = None\<rparr>"

definition env_set :: environ where
  "env_set = \<lparr>SUPABASE_URL = Some (ascii ''https://db.example''),
               SUPABASE_SERVICE_ROLE_KEY = Some (ascii ''secret''),
               SUPABASE_KEY = Some (ascii ''secret''),
               MEMBER_ID = Some (ascii ''af000049855''),
               API_URL = Some (ascii ''https://api.example/feed'')\<rparr>"

definition insert_api :: namespace where
  "insert_api = \<lparr>mode = ascii ''api'', insert' = True\<rparr>"

definition record_a :: json where
  "record_a = JObject [(ascii ''id'', JStr (ascii ''1'')), (ascii ''url'', JStr (ascii ''http://a''))]"

definition record_no_url :: json where
  "record_no_url = JObject [(ascii ''id'', JStr (ascii ''7'')), (ascii ''title'', JStr (ascii ''x''))]"

definition record_full :: json where
  "record_full =
     JObject [(ascii ''id'', JStr (ascii ''1'')), (ascii ''title'', JStr (ascii ''x'')),
              (ascii ''url'', JStr (ascii ''http://a'')), (ascii ''price'', JInt 5),
              (ascii ''currency'', JStr (ascii ''TWD'')), (ascii ''image'', JNull),
              (ascii ''stock'', JNull), (ascii ''source'', JStr (ascii ''api''))]"

definition feed :: "json list \<Rightarrow> get_outcome" where
  "feed items = GetJson (JObject [(ascii ''items'', JArray items)])"

text \<open>
  A store that answers with the rows it stored (its HTTP library logs the request), and
  a store that cannot be reached (the client raises, and there is no answer to log).
\<close>

definition client_line :: "level \<times> pystr" where
  "client_line =
     (INFO, ascii ''HTTP Request: POST https://db.example/rest/v1/products?on_conflict=id ''
              @ [34] @ ascii ''HTTP/1.1 200 OK'' @ [34])"

definition store_ok :: "json list \<Rightarrow> execute" where
  "store_ok items =
     \<lparr>client_records = [client_line],
      outcome = UpsertResponse (JArray items) (Attribute (ascii ''None''))\<rparr>"

definition store_down :: execute where
  "store_down = \<lparr>client_records = [], outcome = UpsertRaises LibraryError\<rparr>"

definition world_ok :: "json list \<Rightarrow> sync_world" where
  "world_ok items = \<lparr>create_client = None, api = feed items, store = store_ok items\<rparr>"

definition world_store_down :: "json list \<Rightarrow> sync_world" where
  "world_store_down items = \<lparr>create_client = None, api = feed items, store = store_down\<rparr>"

section \<open>Properties of the identifier generator\<close>

lemma length_be_bytes32: "length (be_bytes32 w) = 4"
  by (simp add: be_bytes32_def)

lemma length_sha1: "length (sha1 m) = 20"
  by (simp add: sha1_def length_be_bytes32 split: prod.splits)

lemma length_hexdigest: "length (hexdigest bs) = 2 * length bs"
  by (induction bs) (simp_all add: hexdigest_def ascii_def hex_byte_def)

lemma length_hex_lower: "length hex_lower = 16"
  by (simp add: hex_lower_def)

lemma hex_lower_nth: "n < 16 \<Longrightarrow> hex_lower ! n \<in> set hex_lower"
  using nth_mem [of n hex_lower] by (simp add: length_hex_lower)

lemma set_hex_byte: "set (hex_byte b) \<subseteq> set hex_lower"
proof -
  have "unat b < 256"
    using unsigned_less [of b] by simp
  then have "unat b div 16 < 16" and "unat b mod 16 < 16"
    by simp_all
  then show ?thesis
    by (simp add: hex_byte_def hex_lower_nth)
qed

lemma set_hexdigest: "set (hexdigest bs) \<subseteq> set (ascii hex_lower)"
proof -
  have "set (concat (map hex_byte bs)) \<subseteq> set hex_lower"
    using set_hex_byte by auto
  then show ?thesis
    by (auto simp: hexdigest_def ascii_def)
qed

lemma utf8_char_scalar: "unicode_scalar c \<Longrightarrow> utf8_char c \<noteq> None"
  by (simp add: unicode_scalar_def utf8_char_def)

lemma encode_utf8_scalar:
  "\<forall>c \<in> set u. unicode_scalar c \<Longrightarrow> \<exists>bs. encode_utf8 u = Returns bs"
proof (induction u)
  case Nil
  show ?case by simp
next
  case (Cons c cs)
  from Cons.prems obtain bs where "utf8_char c = Some bs"
    using utf8_char_scalar [of c] by auto
  moreover from Cons obtain rest where "encode_utf8 cs = Returns rest"
    by auto
  ultimately show ?case by simp
qed

lemma make_id_Returns:
  "make_id u = Returns d \<Longrightarrow> length d = 40 \<and> set d \<subseteq> set (ascii hex_lower)"
  by (auto simp: make_id_def length_hexdigest length_sha1 split: result.splits
           dest: subsetD [OF set_hexdigest])

lemma unicode_scalar_ascii: "\<forall>c \<in> set s. of_char c < (128::nat) \<Longrightarrow> \<forall>c \<in> set (ascii s). unicode_scalar c"
  by (auto simp: ascii_def unicode_scalar_def surrogate_def)

text \<open>A string with a lone surrogate has no UTF-8 bytes: \<open>encode\<close> raises.\<close>

lemma make_id_surrogate: "make_id [0xD800] = Raises UnicodeEncodeError"
  by (simp add: make_id_def utf8_char_def surrogate_def)

text \<open>One, two, three and four bytes: U+0024, U+00A2, U+20AC, U+6E2C and U+10348.\<close>

lemma encode_utf8_example:
  "encode_utf8 [0x24, 0xA2, 0x20AC, 0x6E2C, 0x10348]
     = Returns [0x24, 0xC2, 0xA2, 0xE2, 0x82, 0xAC, 0xE6, 0xB8, 0xAC, 0xF0, 0x90, 0x8D, 0x88]"
  by (simp add: utf8_char_def surrogate_def)

subsection \<open>The encoder against the reference\<close>

lemma split_64_3: "(c::nat) div 4096 * 4096 + c div 64 mod 64 * 64 + c mod 64 = c"
proof -
  define x a b e where "x = c div 64" and "a = x div 64" and "b = x mod 64" and "e = c mod 64"
  have 1: "c div 4096 = a"
    by (simp add: a_def x_def div_mult2_eq [symmetric])
  have "x = a * 64 + b"
    by (simp add: a_def b_def)
  moreover have "c = x * 64 + e"
    by (simp add: x_def e_def)
  ultimately show ?thesis
    unfolding 1 x_def [symmetric] b_def [symmetric] e_def [symmetric] by linarith
qed

lemma split_64_4:
  "(c::nat) div 262144 * 262144 + c div 4096 mod 64 * 4096 + c div 64 mod 64 * 64 + c mod 64 = c"
proof -
  define x y a b d e where "x = c div 64" and "y = x div 64" and "a = y div 64"
    and "b = y mod 64" and "d = x mod 64" and "e = c mod 64"
  have 1: "c div 4096 = y"
    by (simp add: y_def x_def div_mult2_eq [symmetric])
  have 2: "c div 262144 = a"
    by (simp add: a_def y_def x_def div_mult2_eq [symmetric])
  have "y = a * 64 + b"
    by (simp add: a_def b_def)
  moreover have "x = y * 64 + d"
    by (simp add: y_def d_def)
  moreover have "c = x * 64 + e"
    by (simp add: x_def e_def)
  ultimately show ?thesis
    unfolding 1 2 x_def [symmetric] b_def [symmetric] d_def [symmetric] e_def [symmetric]
    by linarith
qed


lemma unat_byte: "n < 256 \<Longrightarrow> unat (of_nat n :: byte) = n"
  by (simp add: unat_of_nat)

lemma decode_utf8_1:
  "n0 < 0x80 \<Longrightarrow>
     decode_utf8 (of_nat n0 # rest) = map_option ((#) n0) (decode_utf8 rest)"
  by (simp add: unat_byte)

lemma decode_utf8_2:
  assumes "0xC0 \<le> n0" "n0 < 0xE0" "0x80 \<le> n1" "n1 < 0xC0"
    and "0x80 \<le> (n0 - 0xC0) * 64 + (n1 - 0x80)"
  shows "decode_utf8 (of_nat n0 # of_nat n1 # rest)
           = map_option ((#) ((n0 - 0xC0) * 64 + (n1 - 0x80))) (decode_utf8 rest)"
  using assms by (simp add: unat_byte continuation_def)

lemma decode_utf8_3:
  assumes "0xE0 \<le> n0" "n0 < 0xF0" "0x80 \<le> n1" "n1 < 0xC0" "0x80 \<le> n2" "n2 < 0xC0"
    and "0x800 \<le> (n0 - 0xE0) * 4096 + (n1 - 0x80) * 64 + (n2 - 0x80)"
    and "\<not> surrogate ((n0 - 0xE0) * 4096 + (n1 - 0x80) * 64 + (n2 - 0x80))"
  shows "decode_utf8 (of_nat n0 # of_nat n1 # of_nat n2 # rest)
           = map_option ((#) ((n0 - 0xE0) * 4096 + (n1 - 0x80) * 64 + (n2 - 0x80)))
               (decode_utf8 rest)"
  using assms by (simp add: unat_byte continuation_def)

lemma decode_utf8_4:
  assumes "0xF0 \<le> n0" "n0 < 0xF8" "0x80 \<le> n1" "n1 < 0xC0" "0x80 \<le> n2" "n2 < 0xC0"
    and "0x80 \<le> n3" "n3 < 0xC0"
    and "0x10000 \<le> (n0 - 0xF0) * 262144 + (n1 - 0x80) * 4096 + (n2 - 0x80) * 64 + (n3 - 0x80)"
    and "(n0 - 0xF0) * 262144 + (n1 - 0x80) * 4096 + (n2 - 0x80) * 64 + (n3 - 0x80) < 0x110000"
  shows "decode_utf8 (of_nat n0 # of_nat n1 # of_nat n2 # of_nat n3 # rest)
           = map_option
               ((#) ((n0 - 0xF0) * 262144 + (n1 - 0x80) * 4096 + (n2 - 0x80) * 64 + (n3 - 0x80)))
               (decode_utf8 rest)"
  using assms by (simp add: unat_byte continuation_def)

lemma decode_utf8_char:
  assumes "unicode_scalar c" and "utf8_char c = Some bs"
  shows "decode_utf8 (bs @ rest) = map_option ((#) c) (decode_utf8 rest)"
proof -
  consider "c < 0x80" | "0x80 \<le> c" "c < 0x800" | "0x800 \<le> c" "c < 0x10000"
    | "0x10000 \<le> c" "c < 0x110000"
    using assms(1) by (auto simp: unicode_scalar_def) linarith
  then show ?thesis
  proof cases
    case 1
    with assms(2) have "bs = [of_nat c]"
      by (simp add: utf8_char_def)
    with 1 show ?thesis
      using decode_utf8_1 [of c rest] by simp
  next
    case 2
    define n0 n1 where "n0 = 0xC0 + c div 64" and "n1 = 0x80 + c mod 64"
    from 2 assms(2) have bs: "bs = [of_nat n0, of_nat n1]"
      by (simp add: utf8_char_def n0_def n1_def)
    have c: "(n0 - 0xC0) * 64 + (n1 - 0x80) = c"
      by (simp add: n0_def n1_def)
    from 2 have "0xC0 \<le> n0" "n0 < 0xE0" "0x80 \<le> n1" "n1 < 0xC0"
      by (simp_all add: n0_def n1_def)
    from decode_utf8_2 [OF this, of rest] 2 show ?thesis
      unfolding c bs by simp
  next
    case 3
    define n0 n1 n2 where "n0 = 0xE0 + c div 4096" and "n1 = 0x80 + c div 64 mod 64"
      and "n2 = 0x80 + c mod 64"
    from 3 assms have bs: "bs = [of_nat n0, of_nat n1, of_nat n2]"
      by (simp add: utf8_char_def unicode_scalar_def n0_def n1_def n2_def)
    have c: "(n0 - 0xE0) * 4096 + (n1 - 0x80) * 64 + (n2 - 0x80) = c"
      using split_64_3 [of c] by (simp add: n0_def n1_def n2_def)
    from 3 have "0xE0 \<le> n0" "n0 < 0xF0" "0x80 \<le> n1" "n1 < 0xC0" "0x80 \<le> n2" "n2 < 0xC0"
      by (simp_all add: n0_def n1_def n2_def)
    from decode_utf8_3 [OF this, of rest] 3 assms(1) show ?thesis
      unfolding c bs by (simp add: unicode_scalar_def)
  next
    case 4
    define n0 n1 n2 n3 where "n0 = 0xF0 + c div 262144" and "n1 = 0x80 + c div 4096 mod 64"
      and "n2 = 0x80 + c div 64 mod 64" and "n3 = 0x80 + c mod 64"
    from 4 assms(2) have bs: "bs = [of_nat n0, of_nat n1, of_nat n2, of_nat n3]"
      by (simp add: utf8_char_def n0_def n1_def n2_def n3_def)
    have c: "(n0 - 0xF0) * 262144 + (n1 - 0x80) * 4096 + (n2 - 0x80) * 64 + (n3 - 0x80) = c"
      using split_64_4 [of c] by (simp add: n0_def n1_def n2_def n3_def)
    from 4 have "0xF0 \<le> n0" "n0 < 0xF8" "0x80 \<le> n1" "n1 < 0xC0" "0x80 \<le> n2" "n2 < 0xC0"
        "0x80 \<le> n3" "n3 < 0xC0"
      by (simp_all add: n0_def n1_def n2_def n3_def)
    from decode_utf8_4 [OF this, of rest] 4 show ?thesis
      unfolding c bs by simp
  qed
qed

lemma decode_encode_utf8:
  "\<forall>c \<in> set u. unicode_scalar c \<Longrightarrow> encode_utf8 u = Returns bs \<Longrightarrow> decode_utf8 bs = Some u"
proof (induction u arbitrary: bs)
  case Nil
  then show ?case by simp
next
  case (Cons c cs)
  from Cons.prems obtain b rest where
    b: "utf8_char c = Some b" and r: "encode_utf8 cs = Returns rest" and bs: "bs = b @ rest"
    by (auto split: option.splits result.splits)
  from Cons.IH [OF _ r] Cons.prems(1) have "decode_utf8 rest = Some cs"
    by simp
  with decode_utf8_char [OF _ b, of rest] Cons.prems(1) bs show ?case
    by simp
qed

subsection \<open>Known digests, computed step by step\<close>

lemma expand_add: "expand (m + n) w = expand n (expand m w)"
  by (induction m arbitrary: w) simp_all

lemma pad_abc:
  "sha1_pad (map of_char ''abc'') = abc_block"
  unfolding abc_block_def by code_simp

lemma blocks_abc: "blocks (abc_block) = [abc_block]"
  unfolding abc_block_def by code_simp

lemma words_abc: "block_words abc_block = take 16 abc_schedule"
  unfolding abc_block_def abc_schedule_def by code_simp

lemma expand_abc_a: "expand 16 (take 16 abc_schedule) = take 32 abc_schedule"
  unfolding abc_schedule_def by code_simp

lemma expand_abc_b: "expand 16 (take 32 abc_schedule) = take 48 abc_schedule"
  unfolding abc_schedule_def by code_simp

lemma expand_abc_c: "expand 16 (take 48 abc_schedule) = take 64 abc_schedule"
  unfolding abc_schedule_def by code_simp

lemma expand_abc_d: "expand 16 (take 64 abc_schedule) = abc_schedule"
  unfolding abc_schedule_def by code_simp

lemma schedule_abc: "schedule abc_block = abc_schedule"
proof -
  have "expand 64 (take 16 abc_schedule)
          = expand 16 (expand 16 (expand 16 (expand 16 (take 16 abc_schedule))))"
    using expand_add [of 16 48] expand_add [of 16 32] expand_add [of 16 16] by simp
  then show ?thesis
    by (simp add: schedule_def words_abc expand_abc_a expand_abc_b expand_abc_c expand_abc_d)
qed

lemma rounds_abc:
  "fold (sha1_round abc_schedule) [0..<80]
     (0x67452301, 0xEFCDAB89, 0x98BADCFE, 0x10325476, 0xC3D2E1F0)
     = (0x42541B35, 0x5738D5E1, 0x21834873, 0x681E6DF6, 0xD8FDF6AD)"
  unfolding abc_schedule_def by code_simp

lemma sums_abc:
  "(case ((0x67452301, 0xEFCDAB89, 0x98BADCFE, 0x10325476, 0xC3D2E1F0) :: sha1_state)
    of (h0, h1, h2, h3, h4) \<Rightarrow>
      (case (0x42541B35, 0x5738D5E1, 0x21834873, 0x681E6DF6, 0xD8FDF6AD)
       of (a, b', c, d, e) \<Rightarrow> (h0 + a, h1 + b', h2 + c, h3 + d, h4 + e)))
     = (0xA9993E36, 0x4706816A, 0xBA3E2571, 0x7850C26C, 0x9CD0D89D)"
  by code_simp

lemma block_abc:
  "sha1_block (0x67452301, 0xEFCDAB89, 0x98BADCFE, 0x10325476, 0xC3D2E1F0) abc_block
     = (0xA9993E36, 0x4706816A, 0xBA3E2571, 0x7850C26C, 0x9CD0D89D)"
  unfolding sha1_block_def schedule_abc rounds_abc by (rule sums_abc)

lemma digest_abc:
  "(case ((0xA9993E36, 0x4706816A, 0xBA3E2571, 0x7850C26C, 0x9CD0D89D) :: sha1_state)
    of (h0, h1, h2, h3, h4) \<Rightarrow>
      be_bytes32 h0 @ be_bytes32 h1 @ be_bytes32 h2 @ be_bytes32 h3 @ be_bytes32 h4)
     = [0xA9, 0x99, 0x3E, 0x36, 0x47, 0x06, 0x81, 0x6A, 0xBA, 0x3E, 0x25, 0x71, 0x78, 0x50, 0xC2,
     0x6C, 0x9C, 0xD0, 0xD8, 0x9D]"
  by code_simp

lemma hex_abc:
  "hexdigest [0xA9, 0x99, 0x3E, 0x36, 0x47, 0x06, 0x81, 0x6A, 0xBA, 0x3E, 0x25, 0x71, 0x78, 0x50, 0xC2,
     0x6C, 0x9C, 0xD0, 0xD8, 0x9D]
     = ascii ''a9993e364706816aba3e25717850c26c9cd0d89d''"
  by code_simp

lemma sha1_abc:
  "hexdigest (sha1 (map of_char ''abc''))
     = ascii ''a9993e364706816aba3e25717850c26c9cd0d89d''"
proof -
  have "sha1 (map of_char ''abc'')
          = (case ((0xA9993E36, 0x4706816A, 0xBA3E2571, 0x7850C26C, 0x9CD0D89D) :: sha1_state)
             of (h0, h1, h2, h3, h4) \<Rightarrow>
               be_bytes32 h0 @ be_bytes32 h1 @ be_bytes32 h2 @ be_bytes32 h3 @ be_bytes32 h4)"
    unfolding sha1_def pad_abc blocks_abc by (simp add: sha1_init_def block_abc)
  then show ?thesis
    unfolding digest_abc by (simp only: hex_abc)
qed

lemma pad_fips:
  "sha1_pad (map of_char ''abcdbcdecdefdefgefghfghighijhijkijkljklmklmnlmnomnopnopq'') = fips_block_1 @ fips_block_2"
  unfolding fips_block_1_def fips_block_2_def by code_simp

lemma blocks_fips: "blocks (fips_block_1 @ fips_block_2) = [fips_block_1, fips_block_2]"
  unfolding fips_block_1_def fips_block_2_def by code_simp

lemma words_fips_1: "block_words fips_block_1 = take 16 fips_schedule_1"
  unfolding fips_block_1_def fips_schedule_1_def by code_simp

lemma expand_fips_1_a: "expand 16 (take 16 fips_schedule_1) = take 32 fips_schedule_1"
  unfolding fips_schedule_1_def by code_simp

lemma expand_fips_1_b: "expand 16 (take 32 fips_schedule_1) = take 48 fips_schedule_1"
  unfolding fips_schedule_1_def by code_simp

lemma expand_fips_1_c: "expand 16 (take 48 fips_schedule_1) = take 64 fips_schedule_1"
  unfolding fips_schedule_1_def by code_simp

lemma expand_fips_1_d: "expand 16 (take 64 fips_schedule_1) = fips_schedule_1"
  unfolding fips_schedule_1_def by code_simp

lemma schedule_fips_1: "schedule fips_block_1 = fips_schedule_1"
proof -
  have "expand 64 (take 16 fips_schedule_1)
          = expand 16 (expand 16 (expand 16 (expand 16 (take 16 fips_schedule_1))))"
    using expand_add [of 16 48] expand_add [of 16 32] expand_add [of 16 16] by simp
  then show ?thesis
    by (simp add: schedule_def words_fips_1 expand_fips_1_a expand_fips_1_b expand_fips_1_c expand_fips_1_d)
qed

lemma rounds_fips_1:
  "fold (sha1_round fips_schedule_1) [0..<80]
     (0x67452301, 0xEFCDAB89, 0x98BADCFE, 0x10325476, 0xC3D2E1F0)
     = (0x8CE34517, 0xD3AD7C25, 0x6B4E1883, 0x74351CD2, 0x86838382)"
  unfolding fips_schedule_1_def by code_simp

lemma sums_fips_1:
  "(case ((0x67452301, 0xEFCDAB89, 0x98BADCFE, 0x10325476, 0xC3D2E1F0) :: sha1_state)
    of (h0, h1, h2, h3, h4) \<Rightarrow>
      (case (0x8CE34517, 0xD3AD7C25, 0x6B4E1883, 0x74351CD2, 0x86838382)
       of (a, b', c, d, e) \<Rightarrow> (h0 + a, h1 + b', h2 + c, h3 + d, h4 + e)))
     = (0xF4286818, 0xC37B27AE, 0x0408F581, 0x84677148, 0x4A566572)"
  by code_simp

lemma block_fips_1:
  "sha1_block (0x67452301, 0xEFCDAB89, 0x98BADCFE, 0x10325476, 0xC3D2E1F0) fips_block_1
     = (0xF4286818, 0xC37B27AE, 0x0408F581, 0x84677148, 0x4A566572)"
  unfolding sha1_block_def schedule_fips_1 rounds_fips_1 by (rule sums_fips_1)

lemma words_fips_2: "block_words fips_block_2 = take 16 fips_schedule_2"
  unfolding fips_block_2_def fips_schedule_2_def by code_simp

lemma expand_fips_2_a: "expand 16 (take 16 fips_schedule_2) = take 32 fips_schedule_2"
  unfolding fips_schedule_2_def by code_simp

lemma expand_fips_2_b: "expand 16 (take 32 fips_schedule_2) = take 48 fips_schedule_2"
  unfolding fips_schedule_2_def by code_simp

lemma expand_fips_2_c: "expand 16 (take 48 fips_schedule_2) = take 64 fips_schedule_2"
  unfolding fips_schedule_2_def by code_simp

lemma expand_fips_2_d: "expand 16 (take 64 fips_schedule_2) = fips_schedule_2"
  unfolding fips_schedule_2_def by code_simp

lemma schedule_fips_2: "schedule fips_block_2 = fips_schedule_2"
proof -
  have "expand 64 (take 16 fips_schedule_2)
          = expand 16 (expand 16 (expand 16 (expand 16 (take 16 fips_schedule_2))))"
    using expand_add [of 16 48] expand_add [of 16 32] expand_add [of 16 16] by simp
  then show ?thesis
    by (simp add: schedule_def words_fips_2 expand_fips_2_a expand_fips_2_b expand_fips_2_c expand_fips_2_d)
qed

lemma rounds_fips_2:
  "fold (sha1_round fips_schedule_2) [0..<80]
     (0xF4286818, 0xC37B27AE, 0x0408F581, 0x84677148, 0x4A566572)
     = (0x906FD62C, 0x58C0AAC0, 0xB6A55520, 0x74E9B89D, 0x9AF00B7F)"
  unfolding fips_schedule_2_def by code_simp

lemma sums_fips_2:
  "(case ((0xF4286818, 0xC37B27AE, 0x0408F581, 0x84677148, 0x4A566572) :: sha1_state)
    of (h0, h1, h2, h3, h4) \<Rightarrow>
      (case (0x906FD62C, 0x58C0AAC0, 0xB6A55520, 0x74E9B89D, 0x9AF00B7F)
       of (a, b', c, d, e) \<Rightarrow> (h0 + a, h1 + b', h2 + c, h3 + d, h4 + e)))
     = (0x84983E44, 0x1C3BD26E, 0xBAAE4AA1, 0xF95129E5, 0xE54670F1)"
  by code_simp

lemma block_fips_2:
  "sha1_block (0xF4286818, 0xC37B27AE, 0x0408F581, 0x84677148, 0x4A566572) fips_block_2
     = (0x84983E44, 0x1C3BD26E, 0xBAAE4AA1, 0xF95129E5, 0xE54670F1)"
  unfolding sha1_block_def schedule_fips_2 rounds_fips_2 by (rule sums_fips_2)

lemma digest_fips:
  "(case ((0x84983E44, 0x1C3BD26E, 0xBAAE4AA1, 0xF95129E5, 0xE54670F1) :: sha1_state)
    of (h0, h1, h2, h3, h4) \<Rightarrow>
      be_bytes32 h0 @ be_bytes32 h1 @ be_bytes32 h2 @ be_bytes32 h3 @ be_bytes32 h4)
     = [0x84, 0x98, 0x3E, 0x44, 0x1C, 0x3B, 0xD2, 0x6E, 0xBA, 0xAE, 0x4A, 0xA1, 0xF9, 0x51, 0x29,
     0xE5, 0xE5, 0x46, 0x70, 0xF1]"
  by code_simp

lemma hex_fips:
  "hexdigest [0x84, 0x98, 0x3E, 0x44, 0x1C, 0x3B, 0xD2, 0x6E, 0xBA, 0xAE, 0x4A, 0xA1, 0xF9, 0x51, 0x29,
     0xE5, 0xE5, 0x46, 0x70, 0xF1]
     = ascii ''84983e441c3bd26ebaae4aa1f95129e5e54670f1''"
  by code_simp

lemma sha1_fips:
  "hexdigest (sha1 (map of_char ''abcdbcdecdefdefgefghfghighijhijkijkljklmklmnlmnomnopnopq''))
     = ascii ''84983e441c3bd26ebaae4aa1f95129e5e54670f1''"
proof -
  have "sha1 (map of_char ''abcdbcdecdefdefgefghfghighijhijkijkljklmklmnlmnomnopnopq'')
          = (case ((0x84983E44, 0x1C3BD26E, 0xBAAE4AA1, 0xF95129E5, 0xE54670F1) :: sha1_state)
             of (h0, h1, h2, h3, h4) \<Rightarrow>
               be_bytes32 h0 @ be_bytes32 h1 @ be_bytes32 h2 @ be_bytes32 h3 @ be_bytes32 h4)"
    unfolding sha1_def pad_fips blocks_fips by (simp add: sha1_init_def block_fips_1 block_fips_2)
  then show ?thesis
    unfolding digest_fips by (simp only: hex_fips)
qed

lemma pad_api:
  "sha1_pad (map of_char ''https://www.mymall.com.tw/pro-456'') = api_block"
  unfolding api_block_def by code_simp

lemma blocks_api: "blocks (api_block) = [api_block]"
  unfolding api_block_def by code_simp

lemma words_api: "block_words api_block = take 16 api_schedule"
  unfolding api_block_def api_schedule_def by code_simp

lemma expand_api_a: "expand 16 (take 16 api_schedule) = take 32 api_schedule"
  unfolding api_schedule_def by code_simp

lemma expand_api_b: "expand 16 (take 32 api_schedule) = take 48 api_schedule"
  unfolding api_schedule_def by code_simp

lemma expand_api_c: "expand 16 (take 48 api_schedule) = take 64 api_schedule"
  unfolding api_schedule_def by code_simp

lemma expand_api_d: "expand 16 (take 64 api_schedule) = api_schedule"
  unfolding api_schedule_def by code_simp

lemma schedule_api: "schedule api_block = api_schedule"
proof -
  have "expand 64 (take 16 api_schedule)
          = expand 16 (expand 16 (expand 16 (expand 16 (take 16 api_schedule))))"
    using expand_add [of 16 48] expand_add [of 16 32] expand_add [of 16 16] by simp
  then show ?thesis
    by (simp add: schedule_def words_api expand_api_a expand_api_b expand_api_c expand_api_d)
qed

lemma rounds_api:
  "fold (sha1_round api_schedule) [0..<80]
     (0x67452301, 0xEFCDAB89, 0x98BADCFE, 0x10325476, 0xC3D2E1F0)
     = (0x160608FD, 0xDADE610C, 0x0C1D9A76, 0x8F5C0010, 0x05747475)"
  unfolding api_schedule_def by code_simp

lemma sums_api:
  "(case ((0x67452301, 0xEFCDAB89, 0x98BADCFE, 0x10325476, 0xC3D2E1F0) :: sha1_state)
    of (h0, h1, h2, h3, h4) \<Rightarrow>
      (case (0x160608FD, 0xDADE610C, 0x0C1D9A76, 0x8F5C0010, 0x05747475)
       of (a, b', c, d, e) \<Rightarrow> (h0 + a, h1 + b', h2 + c, h3 + d, h4 + e)))
     = (0x7D4B2BFE, 0xCAAC0C95, 0xA4D87774, 0x9F8E5486, 0xC9475665)"
  by code_simp

lemma block_api:
  "sha1_block (0x67452301, 0xEFCDAB89, 0x98BADCFE, 0x10325476, 0xC3D2E1F0) api_block
     = (0x7D4B2BFE, 0xCAAC0C95, 0xA4D87774, 0x9F8E5486, 0xC9475665)"
  unfolding sha1_block_def schedule_api rounds_api by (rule sums_api)

lemma digest_api:
  "(case ((0x7D4B2BFE, 0xCAAC0C95, 0xA4D87774, 0x9F8E5486, 0xC9475665) :: sha1_state)
    of (h0, h1, h2, h3, h4) \<Rightarrow>
      be_bytes32 h0 @ be_bytes32 h1 @ be_bytes32 h2 @ be_bytes32 h3 @ be_bytes32 h4)
     = [0x7D, 0x4B, 0x2B, 0xFE, 0xCA, 0xAC, 0x0C, 0x95, 0xA4, 0xD8, 0x77, 0x74, 0x9F, 0x8E, 0x54,
     0x86, 0xC9, 0x47, 0x56, 0x65]"
  by code_simp

lemma hex_api:
  "hexdigest [0x7D, 0x4B, 0x2B, 0xFE, 0xCA, 0xAC, 0x0C, 0x95, 0xA4, 0xD8, 0x77, 0x74, 0x9F, 0x8E, 0x54,
     0x86, 0xC9, 0x47, 0x56, 0x65]
     = ascii ''7d4b2bfecaac0c95a4d877749f8e5486c9475665''"
  by code_simp

lemma sha1_api:
  "hexdigest (sha1 (map of_char ''https://www.mymall.com.tw/pro-456''))
     = ascii ''7d4b2bfecaac0c95a4d877749f8e5486c9475665''"
proof -
  have "sha1 (map of_char ''https://www.mymall.com.tw/pro-456'')
          = (case ((0x7D4B2BFE, 0xCAAC0C95, 0xA4D87774, 0x9F8E5486, 0xC9475665) :: sha1_state)
             of (h0, h1, h2, h3, h4) \<Rightarrow>
               be_bytes32 h0 @ be_bytes32 h1 @ be_bytes32 h2 @ be_bytes32 h3 @ be_bytes32 h4)"
    unfolding sha1_def pad_api blocks_api by (simp add: sha1_init_def block_api)
  then show ?thesis
    unfolding digest_api by (simp only: hex_api)
qed

lemma pad_scrape:
  "sha1_pad (map of_char ''https://www.mymall.com.tw/pro-123?member=af000049855'') = scrape_block"
  unfolding scrape_block_def by code_simp

lemma blocks_scrape: "blocks (scrape_block) = [scrape_block]"
  unfolding scrape_block_def by code_simp

lemma words_scrape: "block_words scrape_block = take 16 scrape_schedule"
  unfolding scrape_block_def scrape_schedule_def by code_simp

lemma expand_scrape_a: "expand 16 (take 16 scrape_schedule) = take 32 scrape_schedule"
  unfolding scrape_schedule_def by code_simp

lemma expand_scrape_b: "expand 16 (take 32 scrape_schedule) = take 48 scrape_schedule"
  unfolding scrape_schedule_def by code_simp

lemma expand_scrape_c: "expand 16 (take 48 scrape_schedule) = take 64 scrape_schedule"
  unfolding scrape_schedule_def by code_simp

lemma expand_scrape_d: "expand 16 (take 64 scrape_schedule) = scrape_schedule"
  unfolding scrape_schedule_def by code_simp

lemma schedule_scrape: "schedule scrape_block = scrape_schedule"
proof -
  have "expand 64 (take 16 scrape_schedule)
          = expand 16 (expand 16 (expand 16 (expand 16 (take 16 scrape_schedule))))"
    using expand_add [of 16 48] expand_add [of 16 32] expand_add [of 16 16] by simp
  then show ?thesis
    by (simp add: schedule_def words_scrape expand_scrape_a expand_scrape_b expand_scrape_c expand_scrape_d)
qed

lemma rounds_scrape:
  "fold (sha1_round scrape_schedule) [0..<80]
     (0x67452301, 0xEFCDAB89, 0x98BADCFE, 0x10325476, 0xC3D2E1F0)
     = (0x8DAE3319, 0x64B91200, 0x046AB9E6, 0xEA4FBC27, 0xF058D0A7)"
  unfolding scrape_schedule_def by code_simp

lemma sums_scrape:
  "(case ((0x67452301, 0xEFCDAB89, 0x98BADCFE, 0x10325476, 0xC3D2E1F0) :: sha1_state)
    of (h0, h1, h2, h3, h4) \<Rightarrow>
      (case (0x8DAE3319, 0x64B91200, 0x046AB9E6, 0xEA4FBC27, 0xF058D0A7)
       of (a, b', c, d, e) \<Rightarrow> (h0 + a, h1 + b', h2 + c, h3 + d, h4 + e)))
     = (0xF4F3561A, 0x5486BD89, 0x9D2596E4, 0xFA82109D, 0xB42BB297)"
  by code_simp

lemma block_scrape:
  "sha1_block (0x67452301, 0xEFCDAB89, 0x98BADCFE, 0x10325476, 0xC3D2E1F0) scrape_block
     = (0xF4F3561A, 0x5486BD89, 0x9D2596E4, 0xFA82109D, 0xB42BB297)"
  unfolding sha1_block_def schedule_scrape rounds_scrape by (rule sums_scrape)

lemma digest_scrape:
  "(case ((0xF4F3561A, 0x5486BD89, 0x9D2596E4, 0xFA82109D, 0xB42BB297) :: sha1_state)
    of (h0, h1, h2, h3, h4) \<Rightarrow>
      be_bytes32 h0 @ be_bytes32 h1 @ be_bytes32 h2 @ be_bytes32 h3 @ be_bytes32 h4)
     = [0xF4, 0xF3, 0x56, 0x1A, 0x54, 0x86, 0xBD, 0x89, 0x9D, 0x25, 0x96, 0xE4, 0xFA, 0x82, 0x10,
     0x9D, 0xB4, 0x2B, 0xB2, 0x97]"
  by code_simp

lemma hex_scrape:
  "hexdigest [0xF4, 0xF3, 0x56, 0x1A, 0x54, 0x86, 0xBD, 0x89, 0x9D, 0x25, 0x96, 0xE4, 0xFA, 0x82, 0x10,
     0x9D, 0xB4, 0x2B, 0xB2, 0x97]
     = ascii ''f4f3561a5486bd899d2596e4fa82109db42bb297''"
  by code_simp

lemma sha1_scrape:
  "hexdigest (sha1 (map of_char ''https://www.mymall.com.tw/pro-123?member=af000049855''))
     = ascii ''f4f3561a5486bd899d2596e4fa82109db42bb297''"
proof -
  have "sha1 (map of_char ''https://www.mymall.com.tw/pro-123?member=af000049855'')
          = (case ((0xF4F3561A, 0x5486BD89, 0x9D2596E4, 0xFA82109D, 0xB42BB297) :: sha1_state)
             of (h0, h1, h2, h3, h4) \<Rightarrow>
               be_bytes32 h0 @ be_bytes32 h1 @ be_bytes32 h2 @ be_bytes32 h3 @ be_bytes32 h4)"
    unfolding sha1_def pad_scrape blocks_scrape by (simp add: sha1_init_def block_scrape)
  then show ?thesis
    unfolding digest_scrape by (simp only: hex_scrape)
qed

lemma pad_mixed:
  "sha1_pad ([0x24, 0xC2, 0xA2, 0xE2, 0x82, 0xAC, 0xE6, 0xB8, 0xAC, 0xF0, 0x90, 0x8D, 0x88]) = mixed_block"
  unfolding mixed_block_def by code_simp

lemma blocks_mixed: "blocks (mixed_block) = [mixed_block]"
  unfolding mixed_block_def by code_simp

lemma words_mixed: "block_words mixed_block = take 16 mixed_schedule"
  unfolding mixed_block_def mixed_schedule_def by code_simp

lemma expand_mixed_a: "expand 16 (take 16 mixed_schedule) = take 32 mixed_schedule"
  unfolding mixed_schedule_def by code_simp

lemma expand_mixed_b: "expand 16 (take 32 mixed_schedule) = take 48 mixed_schedule"
  unfolding mixed_schedule_def by code_simp

lemma expand_mixed_c: "expand 16 (take 48 mixed_schedule) = take 64 mixed_schedule"
  unfolding mixed_schedule_def by code_simp

lemma expand_mixed_d: "expand 16 (take 64 mixed_schedule) = mixed_schedule"
  unfolding mixed_schedule_def by code_simp

lemma schedule_mixed: "schedule mixed_block = mixed_schedule"
proof -
  have "expand 64 (take 16 mixed_schedule)
          = expand 16 (expand 16 (expand 16 (expand 16 (take 16 mixed_schedule))))"
    using expand_add [of 16 48] expand_add [of 16 32] expand_add [of 16 16] by simp
  then show ?thesis
    by (simp add: schedule_def words_mixed expand_mixed_a expand_mixed_b expand_mixed_c expand_mixed_d)
qed

lemma rounds_mixed:
  "fold (sha1_round mixed_schedule) [0..<80]
     (0x67452301, 0xEFCDAB89, 0x98BADCFE, 0x10325476, 0xC3D2E1F0)
     = (0xA8A08B11, 0x2BAB9D49, 0xC75C8EBB, 0xBA32BA87, 0x8EE439F7)"
  unfolding mixed_schedule_def by code_simp

lemma sums_mixed:
  "(case ((0x67452301, 0xEFCDAB89, 0x98BADCFE, 0x10325476, 0xC3D2E1F0) :: sha1_state)
    of (h0, h1, h2, h3, h4) \<Rightarrow>
      (case (0xA8A08B11, 0x2BAB9D49, 0xC75C8EBB, 0xBA32BA87, 0x8EE439F7)
       of (a, b', c, d, e) \<Rightarrow> (h0 + a, h1 + b', h2 + c, h3 + d, h4 + e)))
     = (0x0FE5AE12, 0x1B7948D2, 0x60176BB9, 0xCA650EFD, 0x52B71BE7)"
  by code_simp

lemma block_mixed:
  "sha1_block (0x67452301, 0xEFCDAB89, 0x98BADCFE, 0x10325476, 0xC3D2E1F0) mixed_block
     = (0x0FE5AE12, 0x1B7948D2, 0x60176BB9, 0xCA650EFD, 0x52B71BE7)"
  unfolding sha1_block_def schedule_mixed rounds_mixed by (rule sums_mixed)

lemma digest_mixed:
  "(case ((0x0FE5AE12, 0x1B7948D2, 0x60176BB9, 0xCA650EFD, 0x52B71BE7) :: sha1_state)
    of (h0, h1, h2, h3, h4) \<Rightarrow>
      be_bytes32 h0 @ be_bytes32 h1 @ be_bytes32 h2 @ be_bytes32 h3 @ be_bytes32 h4)
     = [0x0F, 0xE5, 0xAE, 0x12, 0x1B, 0x79, 0x48, 0xD2, 0x60, 0x17, 0x6B, 0xB9, 0xCA, 0x65, 0x0E,
     0xFD, 0x52, 0xB7, 0x1B, 0xE7]"
  by code_simp

lemma hex_mixed:
  "hexdigest [0x0F, 0xE5, 0xAE, 0x12, 0x1B, 0x79, 0x48, 0xD2, 0x60, 0x17, 0x6B, 0xB9, 0xCA, 0x65, 0x0E,
     0xFD, 0x52, 0xB7, 0x1B, 0xE7]
     = ascii ''0fe5ae121b7948d260176bb9ca650efd52b71be7''"
  by code_simp

lemma sha1_mixed:
  "hexdigest (sha1 ([0x24, 0xC2, 0xA2, 0xE2, 0x82, 0xAC, 0xE6, 0xB8, 0xAC, 0xF0, 0x90, 0x8D, 0x88]))
     = ascii ''0fe5ae121b7948d260176bb9ca650efd52b71be7''"
proof -
  have "sha1 ([0x24, 0xC2, 0xA2, 0xE2, 0x82, 0xAC, 0xE6, 0xB8, 0xAC, 0xF0, 0x90, 0x8D, 0x88])
          = (case ((0x0FE5AE12, 0x1B7948D2, 0x60176BB9, 0xCA650EFD, 0x52B71BE7) :: sha1_state)
             of (h0, h1, h2, h3, h4) \<Rightarrow>
               be_bytes32 h0 @ be_bytes32 h1 @ be_bytes32 h2 @ be_bytes32 h3 @ be_bytes32 h4)"
    unfolding sha1_def pad_mixed blocks_mixed by (simp add: sha1_init_def block_mixed)
  then show ?thesis
    unfolding digest_mixed by (simp only: hex_mixed)
qed

text \<open>The identifier of the string \<open>abc\<close>, and the ids of the two records.\<close>

lemma make_id_abc:
  "make_id (ascii ''abc'') = Returns (ascii ''a9993e364706816aba3e25717850c26c9cd0d89d'')"
proof -
  have "encode_utf8 (ascii ''abc'') = Returns (map of_char ''abc'')"
    by (simp add: ascii_def utf8_char_def)
  then show ?thesis
    by (simp only: make_id_def result.case sha1_abc)
qed

lemma api_id_value: "api_id = ascii ''7d4b2bfecaac0c95a4d877749f8e5486c9475665''"
  unfolding api_id_def by (rule sha1_api)

lemma scrape_id_value: "scrape_id = ascii ''f4f3561a5486bd899d2596e4fa82109db42bb297''"
  unfolding scrape_id_def by (rule sha1_scrape)

section \<open>Properties of the first script\<close>

lemma encode_utf8_ascii:
  "\<forall>c \<in> set t. of_char c < (128::nat) \<Longrightarrow> encode_utf8 (ascii t) = Returns (map of_char t)"
  by (induction t) (simp_all add: ascii_def utf8_char_def of_nat_of_char)

lemma make_id_ascii:
  "\<forall>c \<in> set t. of_char c < (128::nat) \<Longrightarrow>
     make_id (ascii t) = Returns (hexdigest (sha1 (map of_char t)))"
  by (simp add: make_id_def encode_utf8_ascii)

lemma ascii_append: "ascii (a @ b) = ascii a @ ascii b"
  by (simp add: ascii_def)

lemma make_id_scrape_url:
  "make_id (ascii ''https://www.mymall.com.tw/pro-123?member='' @ DEFAULT_MEMBER) = Returns scrape_id"
  unfolding DEFAULT_MEMBER_def scrape_id_def ascii_append [symmetric]
  by (subst make_id_ascii) simp_all

lemma make_id_api_url:
  "make_id (ascii ''https://www.mymall.com.tw/pro-456'') = Returns api_id"
  unfolding api_id_def
  by (subst make_id_ascii) simp_all

text \<open>Neither literal url makes \<open>make_id\<close> raise, so the list is always built.\<close>

lemma build_products_cases:
  "build_products args =
     Returns (if mode args = ascii ''scrape'' then [scrape_product scrape_id]
              else if mode args = ascii ''api'' then [api_product api_id] else [])"
  by (simp add: build_products_def make_id_scrape_url make_id_api_url)

lemma build_products_ids:
  "build_products args = Returns products \<Longrightarrow>
     list_all (\<lambda>p. make_id (url p) = Returns (id' p)) products"
  by (auto simp: build_products_cases scrape_product_def api_product_def
        make_id_scrape_url make_id_api_url split: if_splits)

text \<open>The upsert client of the first script returns normally whatever the post does.\<close>

lemma supabase_upsert_products_returns:
  "fst (supabase_upsert_products env rq w products s) = Returns ()"
  by (simp add: supabase_upsert_products_def Let_def split: post_outcome.splits)

lemma supabase_upsert_products_skip:
  "falsy (SUPABASE_URL env) \<or> falsy (SUPABASE_SERVICE_ROLE_KEY env) \<Longrightarrow>
     supabase_upsert_products env rq w products s = (Returns (), print info_no_env s)"
  by (simp add: supabase_upsert_products_def)

text \<open>Every call of it prints a line, so a run without its lines did not call it.\<close>

lemma supabase_upsert_products_prints:
  "length (stdout (snd (supabase_upsert_products env rq w products s))) > length (stdout s)"
  by (simp add: supabase_upsert_products_def Let_def print_def issue_def
        split: post_outcome.splits)

lemma calls_supabase_upsert_products:
  "calls (snd (supabase_upsert_products env rq w products s)) =
     calls s @
       (if falsy (SUPABASE_URL env) \<or> falsy (SUPABASE_SERVICE_ROLE_KEY env) \<or> \<not> rq then []
        else [scraper_post env products])"
  by (simp add: supabase_upsert_products_def scraper_post_def Let_def print_def issue_def
        split: post_outcome.splits)

lemma fold_print:
  "fold (\<lambda>p. print (f p)) ps s = s\<lparr>stdout := stdout s @ map f ps\<rparr>"
  by (induction ps arbitrary: s) (simp_all add: print_def)

lemma main_Parsed:
  "main env rq w (Parsed args) s =
    (let products = (if mode args = ascii ''scrape'' then [scrape_product scrape_id]
                     else if mode args = ascii ''api'' then [api_product api_id] else []);
         s1 = (if insert' args \<and> products \<noteq> []
               then snd (supabase_upsert_products env rq w products s) else s)
     in (Returns 0, fold (\<lambda>p. print (title_line p)) products
                      (print (summary_line (length products)) s1)))"
proof -
  have "(case supabase_upsert_products env rq w ps s of
          (Raises e, s1) \<Rightarrow> (Raises e, s1)
        | (Returns u, s1) \<Rightarrow>
            (Returns (0::int),
             fold (\<lambda>p. print (title_line p)) ps (print (summary_line (length ps)) s1)))
       = (Returns 0,
          fold (\<lambda>p. print (title_line p)) ps
            (print (summary_line (length ps)) (snd (supabase_upsert_products env rq w ps s))))"
    for ps
  proof -
    obtain r s' where eq: "supabase_upsert_products env rq w ps s = (r, s')"
      by (cases "supabase_upsert_products env rq w ps s")
    with supabase_upsert_products_returns [of env rq w ps s] have "r = Returns ()"
      by simp
    with eq show ?thesis by simp
  qed
  then show ?thesis
    by (simp add: main_def build_products_cases Let_def)
qed

text \<open>
  When \<open>argparse\<close> leaves through \<open>SystemExit\<close>, the run ends in \<open>parse_args\<close>: only
  the parser's own output is added, and no call is issued.
\<close>

lemma main_ParserExit:
  "main env rq w (ParserExit code out) s = (Raises (SystemExit code), s\<lparr>stdout := stdout s @ out\<rparr>)"
  by (simp add: main_def)

text \<open>A run in which \<open>argparse\<close> accepts the arguments returns 0, whatever the post does.\<close>

lemma main_returns_0: "fst (main env rq w (Parsed args) s) = Returns 0"
  by (simp add: main_Parsed Let_def)

lemma script_exit_main: "script_exit (fst (main env rq w (Parsed args) s)) = 0"
  by (simp add: main_returns_0 script_exit_def)

lemma calls_main:
  assumes "c \<in> set (calls (snd (main env rq w parsed io0)))"
  shows "\<exists>args products.
           parsed = Parsed args \<and> build_products args = Returns products
           \<and> c = scraper_post env products"
proof (cases parsed)
  case (ParserExit code out)
  with assms show ?thesis
    by (simp add: main_def io0_def)
next
  case (Parsed args)
  with assms show ?thesis
    by (auto simp: main_Parsed Let_def fold_print print_def io0_def
          calls_supabase_upsert_products build_products_cases split: if_splits)
qed

text \<open>The first script logs nothing.\<close>

lemma log_main: "log (snd (main env rq w parsed s)) = log s"
proof (cases parsed)
  case (ParserExit code out)
  then show ?thesis
    by (simp add: main_def)
next
  case (Parsed args)
  then show ?thesis
    by (simp add: main_Parsed Let_def fold_print print_def supabase_upsert_products_def
          issue_def split: post_outcome.splits)
qed

text \<open>The only call of the first script carries the timeout of 30 seconds.\<close>

lemma scraper_calls_timeout:
  "c \<in> set (calls (snd (main env rq w parsed io0))) \<Longrightarrow> call_timeout c = Some 30"
  by (auto simp: scraper_post_def dest!: calls_main)

section \<open>Properties of the second script\<close>

lemma set_member_id_objects:
  "list_all is_object ps \<Longrightarrow> set_member_id m ps = (map (with_member_id m) ps, None)"
proof (induction ps)
  case Nil
  show ?case by simp
next
  case (Cons p ps)
  then show ?case by (cases p) simp_all
qed

lemma set_member_id_None:
  "set_member_id m ps = (ps', None) \<Longrightarrow>
     list_all is_object ps \<and> ps' = map (with_member_id m) ps"
proof (induction ps arbitrary: ps')
  case Nil
  then show ?case by simp
next
  case (Cons p ps)
  then show ?case by (cases p) (auto split: prod.splits)
qed

lemma field_with_member_id:
  "is_object p \<Longrightarrow>
     field k (with_member_id m p) = (if k = ascii ''member_id'' then Some m else field k p)"
  by (cases p) (simp_all add: update_conv')

lemma calls_fetch_products:
  "calls (snd (fetch_products env g s)) = calls s @ [RequestsGet (fmt (API_URL env)) None]"
  by (simp add: fetch_products_def Let_def issue_def logging_def
       split: get_outcome.splits json.splits)

lemma fetch_products_items:
  "g = GetJson (JObject kvs) \<Longrightarrow> map_of kvs (ascii ''items'') = Some v \<Longrightarrow>
     fetch_products env g s =
       (Returns v, issue (RequestsGet (fmt (API_URL env)) None)
                     (logging INFO (ascii ''Fetching products from API: '' @ fmt (API_URL env)) s))"
  by (simp add: fetch_products_def Let_def)

lemma upsert_products_objects:
  assumes "list_all is_object ps" and "ps \<noteq> []"
  shows "fst (snd (upsert_products env u (JArray ps) s))
           = JArray (map (with_member_id (json_str (MEMBER_ID env))) ps)"
    and "calls (snd (snd (upsert_products env u (JArray ps) s)))
           = calls s @ [sync_upsert env ps]"
    and "list_all (\<lambda>e. fst e \<noteq> WARNING) (log s) \<Longrightarrow>
         list_all (\<lambda>e. fst e \<noteq> WARNING) (client_records u) \<Longrightarrow>
         list_all (\<lambda>e. fst e \<noteq> WARNING) (log (snd (snd (upsert_products env u (JArray ps) s))))"
  using assms
  by (simp_all add: upsert_products_def sync_upsert_def set_member_id_objects Let_def
       issue_def logging_def emit_def
       split: upsert_outcome.splits result.splits attribute.splits)

lemma calls_upsert_products:
  "c \<in> set (calls (snd (snd (upsert_products env u products s)))) \<Longrightarrow> c \<notin> set (calls s) \<Longrightarrow>
     \<exists>ps. products = JArray ps \<and> list_all is_object ps \<and> c = sync_upsert env ps"
  by (auto simp: upsert_products_def sync_upsert_def Let_def issue_def logging_def emit_def
       dest!: set_member_id_None
       split: upsert_outcome.splits result.splits attribute.splits json.splits prod.splits
              option.splits if_splits)

text \<open>
  The records the two functions log themselves are at level INFO or ERROR: what holds of
  the log before, of every such record and of the client's records holds of the log after.
\<close>

lemma log_fetch_products:
  assumes "list_all P (log s)" and "\<And>m. P (INFO, m)" and "\<And>m. P (ERROR, m)"
  shows "list_all P (log (snd (fetch_products env g s)))"
  using assms
  by (simp add: fetch_products_def Let_def issue_def logging_def
        split: get_outcome.splits json.splits)

lemma log_upsert_products:
  assumes "list_all P (log s)" and "list_all P (client_records u)"
    and "\<And>m. P (INFO, m)" and "\<And>m. P (ERROR, m)"
  shows "list_all P (log (snd (snd (upsert_products env u products s))))"
  using assms
  by (simp add: upsert_products_def Let_def issue_def logging_def emit_def
        split: upsert_outcome.splits result.splits attribute.splits json.splits prod.splits
               option.splits)

text \<open>The only warning the second script logs itself.\<close>

lemma sync_warnings:
  assumes "(WARNING, m) \<in> set (log (snd (sync_products env w io0)))"
  shows "m = ascii ''No products fetched. Exiting.''
           \<or> (WARNING, m) \<in> set (client_records (store w))"
proof -
  let ?P = "\<lambda>e. fst e = WARNING \<longrightarrow>
              snd e = ascii ''No products fetched. Exiting.'' \<or> e \<in> set (client_records (store w))"
  obtain r s1 where f: "fetch_products env (api w) io0 = (r, s1)"
    by (cases "fetch_products env (api w) io0")
  have l1: "list_all ?P (log s1)"
    using log_fetch_products [of ?P io0 env "api w"] f by (simp add: io0_def)
  have l2: "list_all ?P (log s2)"
    if "upsert_products env (store w) products s1 = (r2, ps', s2)" for products r2 ps' s2
    using log_upsert_products [of ?P s1 "store w" env products] l1 that
    by (simp add: list_all_iff)
  have "list_all ?P (log (snd (sync_products env w io0)))"
    using f l1 l2
    by (auto simp: sync_products_def logging_def io0_def
          split: option.splits result.splits prod.splits)
  with assms show ?thesis
    by (auto simp: list_all_iff)
qed

text \<open>An exception of the store client leaves \<open>upsert_products\<close>, whatever was fetched.\<close>

lemma upsert_products_raises:
  "list_all is_object ps \<Longrightarrow> ps \<noteq> [] \<Longrightarrow> outcome u = UpsertRaises e \<Longrightarrow>
     fst (upsert_products env u (JArray ps) s) = Raises e"
  by (simp add: upsert_products_def set_member_id_objects Let_def)

text \<open>What the second script sends is what it fetched, each record with \<open>member_id\<close> set.\<close>

lemma sync_rows:
  assumes "ClientUpsert tb rows oc \<in> set (calls (snd (sync_products env w io0)))"
  shows "\<exists>fetched. fst (fetch_products env (api w) io0) = Returns (JArray fetched)
           \<and> list_all is_object fetched
           \<and> ClientUpsert tb rows oc = sync_upsert env fetched"
proof -
  let ?c = "ClientUpsert tb rows oc"
  obtain r s1 where f: "fetch_products env (api w) io0 = (r, s1)"
    by (cases "fetch_products env (api w) io0")
  have "calls s1 = [RequestsGet (fmt (API_URL env)) None]"
    using calls_fetch_products [of env "api w" io0] f by (simp add: io0_def)
  then have notin: "?c \<notin> set (calls s1)"
    by simp
  show ?thesis
  proof (cases r)
    case (Raises e)
    with assms f notin show ?thesis
      by (auto simp: sync_products_def io0_def logging_def split: if_splits option.splits)
  next
    case (Returns products)
    with assms f notin
    have "?c \<in> set (calls (snd (snd (upsert_products env (store w) products s1))))"
      by (auto simp: sync_products_def io0_def logging_def
            split: if_splits option.splits prod.splits)
    from calls_upsert_products [OF this notin] Returns f show ?thesis
      by auto
  qed
qed

section \<open>Concrete runs\<close>

lemma ascii_eq_Nil: "ascii t = [] \<longleftrightarrow> t = []"
  by (simp add: ascii_def)

lemmas run_defs = sync_products_def env_set_def world_ok_def world_store_down_def feed_def
  store_ok_def store_down_def fetch_products_def upsert_products_def io0_def logging_def
  issue_def emit_def falsy_def fmt_def json_str_def str_nat.simps Let_def sync_upsert_def

lemma run_insert_api:
  "calls (snd (main env_set True (PostResponse 201 [] []) (Parsed insert_api) io0))
     = [scraper_post env_set [api_product api_id]]"
  by (simp add: main_Parsed insert_api_def Let_def fold_print print_def io0_def
        calls_supabase_upsert_products env_set_def falsy_def ascii_def)

lemma run_world_ok:
  "list_all is_object items \<Longrightarrow> items \<noteq> [] \<Longrightarrow>
   calls (snd (sync_products env_set (world_ok items) io0))
     = [RequestsGet (ascii ''https://api.example/feed'') None, sync_upsert env_set items]"
  by (cases items)
     (simp_all add: run_defs ascii_eq_Nil set_member_id_objects split: result.splits)

lemma asdict_fields:
  "keys (JObject (asdict p)) = product_fields
   \<and> field (ascii ''price'') (JObject (asdict p)) = Some (json_int (price p))
   \<and> field (ascii ''image'') (JObject (asdict p)) = Some (json_str (image p))
   \<and> field (ascii ''stock'') (JObject (asdict p)) = Some (json_int (stock p))"
  by (simp add: asdict_def product_fields_def ascii_def)

section \<open>The claims\<close>

subsection \<open>C2: the identifier is the SHA-1 hex digest of the UTF-8 bytes\<close>

text \<open>
  Claim C2. \<open>make_id u\<close> depends on \<open>u\<close> alone (the definition reads nothing else, so
  two calls on the same \<open>u\<close> give the same result), and for every URL string \<open>u\<close>, that
  is, every sequence of Unicode scalar values, it returns the hexadecimal digest of the
  bytes \<open>bs\<close> that \<open>encode\<close> gives for \<open>u\<close>. These bytes are the UTF-8 form of \<open>u\<close>: the
  reference decoder reads them back to \<open>u\<close>. The digest has forty characters, each one
  of \<open>0123456789abcdef\<close>, and \<open>sha1\<close> is SHA-1: it gives the digests that FIPS 180
  states for its two examples, one of a single block and one of two.
\<close>

theorem make_id_digest:
  assumes "\<forall>c \<in> set u. unicode_scalar c"
  shows "(\<exists>bs. encode_utf8 u = Returns bs
           \<and> decode_utf8 bs = Some u
           \<and> make_id u = Returns (hexdigest (sha1 bs))
           \<and> length (hexdigest (sha1 bs)) = 40
           \<and> set (hexdigest (sha1 bs)) \<subseteq> set (ascii hex_lower))
       \<and> hexdigest (sha1 (map of_char ''abc''))
           = ascii ''a9993e364706816aba3e25717850c26c9cd0d89d''
       \<and> hexdigest (sha1 (map of_char
             ''abcdbcdecdefdefgefghfghighijhijkijkljklmklmnlmnomnopnopq''))
           = ascii ''84983e441c3bd26ebaae4aa1f95129e5e54670f1''"
proof (intro conjI)
  from assms obtain bs where bs: "encode_utf8 u = Returns bs"
    using encode_utf8_scalar by blast
  with assms have "decode_utf8 bs = Some u"
    by (rule decode_encode_utf8)
  moreover from bs have "make_id u = Returns (hexdigest (sha1 bs))"
    by (simp add: make_id_def)
  ultimately show "\<exists>bs. encode_utf8 u = Returns bs
           \<and> decode_utf8 bs = Some u
           \<and> make_id u = Returns (hexdigest (sha1 bs))
           \<and> length (hexdigest (sha1 bs)) = 40
           \<and> set (hexdigest (sha1 bs)) \<subseteq> set (ascii hex_lower)"
    using bs make_id_Returns by blast
next
  show "hexdigest (sha1 (map of_char ''abc''))
           = ascii ''a9993e364706816aba3e25717850c26c9cd0d89d''"
    by (rule sha1_abc)
next
  show "hexdigest (sha1 (map of_char
             ''abcdbcdecdefdefgefghfghighijhijkijkljklmklmnlmnomnopnopq''))
           = ascii ''84983e441c3bd26ebaae4aa1f95129e5e54670f1''"
    by (rule sha1_fips)
qed

text \<open>
  The claim at three strings: one with code points of one, two, three and four bytes
  (U+0024, U+00A2, U+20AC, U+6E2C, U+10348), and the urls of the two records of the first
  script, with the digest each of them gets.
\<close>

theorem make_id_digest_witness:
  "list_all unicode_scalar [0x24, 0xA2, 0x20AC, 0x6E2C, 0x10348]
   \<and> encode_utf8 [0x24, 0xA2, 0x20AC, 0x6E2C, 0x10348]
       = Returns [0x24, 0xC2, 0xA2, 0xE2, 0x82, 0xAC, 0xE6, 0xB8, 0xAC, 0xF0, 0x90, 0x8D, 0x88]
   \<and> decode_utf8 [0x24, 0xC2, 0xA2, 0xE2, 0x82, 0xAC, 0xE6, 0xB8, 0xAC, 0xF0, 0x90, 0x8D, 0x88]
       = Some [0x24, 0xA2, 0x20AC, 0x6E2C, 0x10348]
   \<and> make_id [0x24, 0xA2, 0x20AC, 0x6E2C, 0x10348]
       = Returns (ascii ''0fe5ae121b7948d260176bb9ca650efd52b71be7'')
   \<and> make_id (ascii ''https://www.mymall.com.tw/pro-456'')
       = Returns (ascii ''7d4b2bfecaac0c95a4d877749f8e5486c9475665'')
   \<and> make_id (ascii ''https://www.mymall.com.tw/pro-123?member=af000049855'')
       = Returns (ascii ''f4f3561a5486bd899d2596e4fa82109db42bb297'')"
proof -
  let ?u = "[0x24, 0xA2, 0x20AC, 0x6E2C, 0x10348] :: pystr"
  let ?bs = "[0x24, 0xC2, 0xA2, 0xE2, 0x82, 0xAC, 0xE6, 0xB8, 0xAC, 0xF0, 0x90, 0x8D, 0x88]
               :: byte list"
  have h: "\<forall>c \<in> set ?u. unicode_scalar c"
    by (simp add: unicode_scalar_def surrogate_def)
  from make_id_digest [OF h, THEN conjunct1] obtain bs where
    e: "encode_utf8 ?u = Returns bs" and d: "decode_utf8 bs = Some ?u"
    and m: "make_id ?u = Returns (hexdigest (sha1 bs))"
    by (elim exE conjE)
  from e encode_utf8_example have bs: "bs = ?bs"
    by simp
  have 1: "list_all unicode_scalar ?u"
    using h by (simp add: list_all_iff)
  have 2: "encode_utf8 ?u = Returns ?bs"
    using e bs by simp
  have 3: "decode_utf8 ?bs = Some ?u"
    using d bs by simp
  have 4: "make_id ?u = Returns (ascii ''0fe5ae121b7948d260176bb9ca650efd52b71be7'')"
    using m unfolding bs by (simp only: sha1_mixed)
  have ha: "\<forall>c \<in> set (ascii ''https://www.mymall.com.tw/pro-456''). unicode_scalar c"
    by (rule unicode_scalar_ascii) simp
  from make_id_digest [OF ha, THEN conjunct1] obtain bsa where
    ea: "encode_utf8 (ascii ''https://www.mymall.com.tw/pro-456'') = Returns bsa"
    and ma: "make_id (ascii ''https://www.mymall.com.tw/pro-456'') = Returns (hexdigest (sha1 bsa))"
    by (elim exE conjE)
  have "encode_utf8 (ascii ''https://www.mymall.com.tw/pro-456'')
          = Returns (map of_char ''https://www.mymall.com.tw/pro-456'')"
    by (rule encode_utf8_ascii) simp
  with ea have bsa: "bsa = map of_char ''https://www.mymall.com.tw/pro-456''"
    by simp
  have 5: "make_id (ascii ''https://www.mymall.com.tw/pro-456'')
       = Returns (ascii ''7d4b2bfecaac0c95a4d877749f8e5486c9475665'')"
    using ma unfolding bsa by (simp only: sha1_api)
  have hs: "\<forall>c \<in> set (ascii ''https://www.mymall.com.tw/pro-123?member=af000049855'').
              unicode_scalar c"
    by (rule unicode_scalar_ascii) simp
  from make_id_digest [OF hs, THEN conjunct1] obtain bss where
    es: "encode_utf8 (ascii ''https://www.mymall.com.tw/pro-123?member=af000049855'')
           = Returns bss"
    and ms: "make_id (ascii ''https://www.mymall.com.tw/pro-123?member=af000049855'')
           = Returns (hexdigest (sha1 bss))"
    by (elim exE conjE)
  have "encode_utf8 (ascii ''https://www.mymall.com.tw/pro-123?member=af000049855'')
          = Returns (map of_char ''https://www.mymall.com.tw/pro-123?member=af000049855'')"
    by (rule encode_utf8_ascii) simp
  with es have bss: "bss = map of_char ''https://www.mymall.com.tw/pro-123?member=af000049855''"
    by simp
  have 6: "make_id (ascii ''https://www.mymall.com.tw/pro-123?member=af000049855'')
       = Returns (ascii ''f4f3561a5486bd899d2596e4fa82109db42bb297'')"
    using ms unfolding bss by (simp only: sha1_scrape)
  show ?thesis
    by (intro conjI 1 2 3 4 5 6)
qed

subsection \<open>C1: the id of a record sent to the store\<close>

text \<open>
  Claim C1, as amended. Every record the first script sends to the store has
  \<open>id = make_id(url)\<close>, the SHA-1 hex digest of its url, and two of its records with the
  same url have the same id. The second script computes no id: each record it sends is a
  record of the source API with \<open>member_id\<close> set, its \<open>id\<close> field as it was fetched.
\<close>

theorem sent_ids:
  "(c \<in> set (calls (snd (main env rq w parsed io0))) \<longrightarrow>
      (\<exists>products. c = scraper_post env products
         \<and> list_all (\<lambda>p. make_id (url p) = Returns (id' p)) products
         \<and> (\<forall>p \<in> set products. \<forall>q \<in> set products. url p = url q \<longrightarrow> id' p = id' q)))
   \<and> (ClientUpsert tb rows oc \<in> set (calls (snd (sync_products env sw io0))) \<longrightarrow>
      (\<exists>fetched. fst (fetch_products env (api sw) io0) = Returns (JArray fetched)
         \<and> ClientUpsert tb rows oc = sync_upsert env fetched
         \<and> list_all (\<lambda>p. field (ascii ''id'') (with_member_id (json_str (MEMBER_ID env)) p)
                           = field (ascii ''id'') p) fetched))"
proof (intro conjI impI)
  assume "c \<in> set (calls (snd (main env rq w parsed io0)))"
  from calls_main [OF this] obtain args products where
    b: "build_products args = Returns products" and c: "c = scraper_post env products"
    by auto
  from b have ids: "list_all (\<lambda>p. make_id (url p) = Returns (id' p)) products"
    by (rule build_products_ids)
  have "id' p = id' q" if "p \<in> set products" "q \<in> set products" "url p = url q" for p q
  proof -
    from ids that(1) have "make_id (url p) = Returns (id' p)"
      by (simp add: list_all_iff)
    moreover from ids that(2) have "make_id (url q) = Returns (id' q)"
      by (simp add: list_all_iff)
    ultimately show ?thesis
      using that(3) by simp
  qed
  with c ids show "\<exists>products. c = scraper_post env products
         \<and> list_all (\<lambda>p. make_id (url p) = Returns (id' p)) products
         \<and> (\<forall>p \<in> set products. \<forall>q \<in> set products. url p = url q \<longrightarrow> id' p = id' q)"
    by blast
next
  assume "ClientUpsert tb rows oc \<in> set (calls (snd (sync_products env sw io0)))"
  from sync_rows [OF this] obtain fetched where
    f: "fst (fetch_products env (api sw) io0) = Returns (JArray fetched)"
    and o: "list_all is_object fetched"
    and c: "ClientUpsert tb rows oc = sync_upsert env fetched"
    by auto
  have "ascii ''id'' \<noteq> ascii ''member_id''"
    by (simp add: ascii_def)
  with o have "list_all (\<lambda>p. field (ascii ''id'') (with_member_id (json_str (MEMBER_ID env)) p)
                           = field (ascii ''id'') p) fetched"
    by (simp add: list_all_iff field_with_member_id)
  with f c show "\<exists>fetched. fst (fetch_products env (api sw) io0) = Returns (JArray fetched)
         \<and> ClientUpsert tb rows oc = sync_upsert env fetched
         \<and> list_all (\<lambda>p. field (ascii ''id'') (with_member_id (json_str (MEMBER_ID env)) p)
                           = field (ascii ''id'') p) fetched"
    by blast
qed

text \<open>
  The amended claim at a run of each script: \<open>--mode api --insert\<close> with the store
  configured, and a sync of one record.
\<close>

theorem sent_ids_witness:
  "scraper_post env_set [api_product api_id]
      \<in> set (calls (snd (main env_set True (PostResponse 201 [] []) (Parsed insert_api) io0)))
   \<and> (\<exists>products. scraper_post env_set [api_product api_id] = scraper_post env_set products
         \<and> list_all (\<lambda>p. make_id (url p) = Returns (id' p)) products
         \<and> (\<forall>p \<in> set products. \<forall>q \<in> set products. url p = url q \<longrightarrow> id' p = id' q))
   \<and> sync_upsert env_set [record_a]
      \<in> set (calls (snd (sync_products env_set (world_ok [record_a]) io0)))
   \<and> (\<exists>fetched. fst (fetch_products env_set (api (world_ok [record_a])) io0)
                    = Returns (JArray fetched)
         \<and> sync_upsert env_set [record_a] = sync_upsert env_set fetched
         \<and> list_all (\<lambda>p. field (ascii ''id'') (with_member_id (json_str (MEMBER_ID env_set)) p)
                           = field (ascii ''id'') p) fetched)"
proof -
  note T = sent_ids [of "scraper_post env_set [api_product api_id]" env_set True
        "PostResponse 201 [] []" "Parsed insert_api" "ascii ''products''"
        "JArray (map (with_member_id (json_str (MEMBER_ID env_set))) [record_a])"
        "[ascii ''id'']" "world_ok [record_a]", folded sync_upsert_def]
  have a: "scraper_post env_set [api_product api_id]
      \<in> set (calls (snd (main env_set True (PostResponse 201 [] []) (Parsed insert_api) io0)))"
    by (simp add: run_insert_api)
  have b: "sync_upsert env_set [record_a]
      \<in> set (calls (snd (sync_products env_set (world_ok [record_a]) io0)))"
    by (simp add: run_world_ok record_a_def)
  note c1 = mp [OF T [THEN conjunct1] a]
  note c2 = mp [OF T [THEN conjunct2] b]
  show ?thesis
    by (rule conjI [OF a conjI [OF c1 conjI [OF b c2]]])
qed

text \<open>
  The claim as stated fails in the second script: the source API's record with id \<open>1\<close>
  and url \<open>http://a\<close> is sent with that id, which is not \<open>make_id\<close> of its url.
\<close>

theorem sync_sends_foreign_id:
  "calls (snd (sync_products env_set (world_ok [record_a]) io0))
     = [RequestsGet (ascii ''https://api.example/feed'') None,
        ClientUpsert (ascii ''products'')
          (JArray [JObject [(ascii ''id'', JStr (ascii ''1'')),
                            (ascii ''url'', JStr (ascii ''http://a'')),
                            (ascii ''member_id'', JStr (ascii ''af000049855''))]])
          [ascii ''id'']]
   \<and> make_id (ascii ''http://a'') \<noteq> Returns (ascii ''1'')"
proof -
  have "make_id (ascii ''http://a'') \<noteq> Returns (ascii ''1'')"
    using make_id_Returns [of "ascii ''http://a''" "ascii ''1''"]
    by (auto simp: ascii_def)
  moreover have "calls (snd (sync_products env_set (world_ok [record_a]) io0))
     = [RequestsGet (ascii ''https://api.example/feed'') None,
        ClientUpsert (ascii ''products'')
          (JArray [JObject [(ascii ''id'', JStr (ascii ''1'')),
                            (ascii ''url'', JStr (ascii ''http://a'')),
                            (ascii ''member_id'', JStr (ascii ''af000049855''))]])
          [ascii ''id'']]"
    by (simp add: run_defs record_a_def ascii_def)
  ultimately show ?thesis by simp
qed

subsection \<open>C3: the write is skipped when the store is not configured\<close>

text \<open>
  Claim C3. For every product list, when the endpoint URL or the credential is absent
  (unset or empty), \<open>supabase_upsert_products\<close> issues no call, prints the informational
  notice and returns normally; and \<open>main\<close> still prints the summary and the title of
  every record it built, and returns 0, with no call issued and nothing else changed.
\<close>

theorem skip_write_without_config:
  assumes "falsy (SUPABASE_URL env) \<or> falsy (SUPABASE_SERVICE_ROLE_KEY env)"
  shows "supabase_upsert_products env rq w products s = (Returns (), print info_no_env s)
       \<and> (\<exists>built. build_products args = Returns built
            \<and> main env rq w (Parsed args) s =
                (Returns 0,
                 s\<lparr>stdout := stdout s @ (if insert' args \<and> built \<noteq> [] then [info_no_env] else [])
                                 @ summary_line (length built) # map title_line built\<rparr>))"
  using assms
  by (simp add: supabase_upsert_products_skip main_Parsed build_products_cases
        fold_print print_def)

theorem skip_write_without_config_witness:
  "falsy (SUPABASE_URL env_unset)
   \<and> supabase_upsert_products env_unset True (PostResponse 201 [] []) [api_product api_id] io0
       = (Returns (), \<lparr>stdout = [info_no_env], log = [], calls = []\<rparr>)
   \<and> main env_unset True (PostResponse 201 [] []) (Parsed insert_api) io0
       = (Returns 0,
          \<lparr>stdout = [info_no_env, summary_line 1, title_line (api_product api_id)],
           log = [], calls = []\<rparr>)"
proof -
  have h: "falsy (SUPABASE_URL env_unset) \<or> falsy (SUPABASE_SERVICE_ROLE_KEY env_unset)"
    by (simp add: env_unset_def falsy_def)
  show ?thesis
    using skip_write_without_config [OF h, of True "PostResponse 201 [] []"
        "[api_product api_id]" io0 insert_api]
    by (simp add: build_products_cases insert_api_def io0_def print_def env_unset_def
          falsy_def ascii_def)
qed

subsection \<open>C10: no request without \<open>--insert\<close>\<close>

text \<open>
  Claim C10, as amended. For every argument vector the parser accepts, if \<open>--insert\<close> is
  not given, or the built list is empty, the run issues no call at all and logs nothing:
  it leaves the state as it found it but for the summary line and the titles it prints,
  and it returns 0. No line of \<open>supabase_upsert_products\<close> is among the output, and every
  call of that function prints one (\<open>supabase_upsert_products_prints\<close>), so it is not
  called. For an argument vector the parser does not accept (an argument it refuses, or
  \<open>--help\<close>), the run ends inside \<open>parse_args\<close> with \<open>SystemExit\<close>: no call is issued
  and the only output is the parser's, but \<open>main\<close> returns no value.
\<close>

theorem no_insert_no_request:
  "(\<not> insert' args \<or> build_products args = Returns [] \<longrightarrow>
      (\<exists>built. build_products args = Returns built
          \<and> main env rq w (Parsed args) s =
               (Returns 0,
                s\<lparr>stdout := stdout s @ summary_line (length built) # map title_line built\<rparr>)))
   \<and> main env rq w (ParserExit code out) s
        = (Raises (SystemExit code), s\<lparr>stdout := stdout s @ out\<rparr>)"
  by (auto simp: main_Parsed main_ParserExit build_products_cases fold_print print_def
        split: if_splits)

theorem no_insert_no_request_witness:
  "main env_set True (PostResponse 201 [] [])
       (Parsed \<lparr>mode = ascii ''scrape'', insert' = False\<rparr>) io0
     = (Returns 0,
        \<lparr>stdout = [summary_line 1, title_line (scrape_product scrape_id)],
         log = [], calls = []\<rparr>)
   \<and> main env_set True (PostResponse 201 [] []) (ParserExit 0 [ascii ''usage: ...'']) io0
     = (Raises (SystemExit 0), \<lparr>stdout = [ascii ''usage: ...''], log = [], calls = []\<rparr>)"
  using no_insert_no_request [of "\<lparr>mode = ascii ''scrape'', insert' = False\<rparr>" env_set True
      "PostResponse 201 [] []" io0 0 "[ascii ''usage: ...'']"]
  by (simp add: build_products_cases io0_def)

text \<open>
  The claim as stated fails for an argument vector the parser refuses, such as
  \<open>--mode foo\<close>: \<open>--insert\<close> is not given, and the run does not return 0; it ends with
  \<open>SystemExit(2)\<close>, with no call issued.
\<close>

theorem refused_arguments_exit_2:
  "main env_set True (PostResponse 201 [] []) (ParserExit 2 []) io0
     = (Raises (SystemExit 2), \<lparr>stdout = [], log = [], calls = []\<rparr>)
   \<and> fst (main env_set True (PostResponse 201 [] []) (ParserExit 2 []) io0) \<noteq> Returns 0
   \<and> script_exit (fst (main env_set True (PostResponse 201 [] []) (ParserExit 2 []) io0)) = 2"
  by (simp add: main_def io0_def script_exit_def)

subsection \<open>C5: records without a url\<close>

text \<open>
  Claim C5, as amended. Neither script drops a record for a missing or empty url, and
  neither logs a warning about one.
  \<^item> The first script logs nothing, and every record it builds has a url that is not
    empty.
  \<^item> The second script, when the fetched list is not empty and every item of it is a
    JSON object, sends every item to the store with \<open>member_id\<close> set, whether or not the
    item has a url; a warning in the log of such a run is a record of the store client's
    libraries, not of the script.
  \<^item> When the fetched list is empty, the second script sends nothing, returns normally,
    and its last log record is the warning \<open>No products fetched. Exiting.\<close>
  \<^item> In any run of the second script, a warning in the log is that one or a record of
    the store client's libraries.
\<close>

theorem sync_forwards_every_record:
  "(build_products args = Returns built \<longrightarrow>
      list_all (\<lambda>p. url p \<noteq> []) built
      \<and> log (snd (main env rq pw (Parsed args) s)) = log s)
   \<and> (list_all (\<lambda>v. \<not> falsy v)
          [SUPABASE_URL env, SUPABASE_KEY env, MEMBER_ID env, API_URL env]
        \<and> create_client w = None
        \<and> fst (fetch_products env (api w) io0) = Returns (JArray fetched)
        \<and> fetched \<noteq> [] \<and> list_all is_object fetched \<longrightarrow>
      calls (snd (sync_products env w io0))
         = [RequestsGet (fmt (API_URL env)) None, sync_upsert env fetched]
      \<and> list_all (\<lambda>e. fst e = WARNING \<longrightarrow> e \<in> set (client_records (store w)))
           (log (snd (sync_products env w io0))))
   \<and> (list_all (\<lambda>v. \<not> falsy v)
          [SUPABASE_URL env, SUPABASE_KEY env, MEMBER_ID env, API_URL env]
        \<and> create_client w' = None
        \<and> fst (fetch_products env (api w') io0) = Returns (JArray []) \<longrightarrow>
      fst (sync_products env w' io0) = Returns ()
      \<and> calls (snd (sync_products env w' io0)) = [RequestsGet (fmt (API_URL env)) None]
      \<and> last (log (snd (sync_products env w' io0)))
           = (WARNING, ascii ''No products fetched. Exiting.''))
   \<and> ((WARNING, m) \<in> set (log (snd (sync_products env w'' io0))) \<longrightarrow>
        m = ascii ''No products fetched. Exiting.''
        \<or> (WARNING, m) \<in> set (client_records (store w'')))"
proof (intro conjI impI)
  assume "build_products args = Returns built"
  then show "list_all (\<lambda>p. url p \<noteq> []) built"
    by (auto simp: build_products_cases scrape_product_def api_product_def ascii_eq_Nil
          split: if_splits)
  show "log (snd (main env rq pw (Parsed args) s)) = log s"
    by (simp add: log_main)
next
  assume a: "list_all (\<lambda>v. \<not> falsy v)
          [SUPABASE_URL env, SUPABASE_KEY env, MEMBER_ID env, API_URL env]
        \<and> create_client w = None
        \<and> fst (fetch_products env (api w) io0) = Returns (JArray fetched)
        \<and> fetched \<noteq> [] \<and> list_all is_object fetched"
  obtain r s1 where f: "fetch_products env (api w) io0 = (r, s1)"
    by (cases "fetch_products env (api w) io0")
  with a have r: "r = Returns (JArray fetched)"
    by simp
  have c1: "calls s1 = [RequestsGet (fmt (API_URL env)) None]"
    using calls_fetch_products [of env "api w" io0] f by (simp add: io0_def)
  have l1: "list_all (\<lambda>e. fst e = WARNING \<longrightarrow> e \<in> set (client_records (store w))) (log s1)"
    using log_fetch_products [of "\<lambda>e. fst e = WARNING \<longrightarrow> e \<in> set (client_records (store w))"
        io0 env "api w"] f
    by (simp add: io0_def)
  obtain r2 ps' s2 where u: "upsert_products env (store w) (JArray fetched) s1 = (r2, ps', s2)"
    by (cases "upsert_products env (store w) (JArray fetched) s1")
  from a f r u have run: "sync_products env w io0 = (r2, s2)"
    by (simp add: sync_products_def)
  from a have o: "list_all is_object fetched" and ne: "fetched \<noteq> []"
    by simp_all
  have "calls s2 = calls s1 @ [sync_upsert env fetched]"
    using upsert_products_objects(2) [OF o ne, of env "store w" s1] u by simp
  with c1 run show "calls (snd (sync_products env w io0))
         = [RequestsGet (fmt (API_URL env)) None, sync_upsert env fetched]"
    by simp
  have "list_all (\<lambda>e. fst e = WARNING \<longrightarrow> e \<in> set (client_records (store w))) (log s2)"
    using log_upsert_products
      [of "\<lambda>e. fst e = WARNING \<longrightarrow> e \<in> set (client_records (store w))" s1 "store w" env
          "JArray fetched"] l1 u
    by (simp add: list_all_iff)
  with run show "list_all (\<lambda>e. fst e = WARNING \<longrightarrow> e \<in> set (client_records (store w)))
           (log (snd (sync_products env w io0)))"
    by simp
next
  assume a: "list_all (\<lambda>v. \<not> falsy v)
          [SUPABASE_URL env, SUPABASE_KEY env, MEMBER_ID env, API_URL env]
        \<and> create_client w' = None
        \<and> fst (fetch_products env (api w') io0) = Returns (JArray [])"
  obtain r s1 where f: "fetch_products env (api w') io0 = (r, s1)"
    by (cases "fetch_products env (api w') io0")
  with a have r: "r = Returns (JArray [])"
    by simp
  have c1: "calls s1 = [RequestsGet (fmt (API_URL env)) None]"
    using calls_fetch_products [of env "api w'" io0] f by (simp add: io0_def)
  from a f r have run: "sync_products env w' io0
      = (Returns (), logging WARNING (ascii ''No products fetched. Exiting.'') s1)"
    by (simp add: sync_products_def)
  from run show "fst (sync_products env w' io0) = Returns ()"
    by simp
  from run c1 show "calls (snd (sync_products env w' io0)) = [RequestsGet (fmt (API_URL env)) None]"
    by (simp add: logging_def)
  from run show "last (log (snd (sync_products env w' io0)))
           = (WARNING, ascii ''No products fetched. Exiting.'')"
    by (simp add: logging_def)
next
  assume "(WARNING, m) \<in> set (log (snd (sync_products env w'' io0)))"
  then show "m = ascii ''No products fetched. Exiting.''
        \<or> (WARNING, m) \<in> set (client_records (store w''))"
    by (rule sync_warnings)
qed

theorem sync_forwards_every_record_witness:
  "build_products insert_api = Returns [api_product api_id]
   \<and> list_all (\<lambda>p. url p \<noteq> []) [api_product api_id]
   \<and> field (ascii ''url'') record_no_url = None
   \<and> calls (snd (sync_products env_set (world_ok [record_no_url]) io0))
           = [RequestsGet (fmt (API_URL env_set)) None, sync_upsert env_set [record_no_url]]
   \<and> list_all (\<lambda>e. fst e = WARNING \<longrightarrow> e \<in> set (client_records (store (world_ok [record_no_url]))))
        (log (snd (sync_products env_set (world_ok [record_no_url]) io0)))
   \<and> fst (sync_products env_set (world_ok []) io0) = Returns ()
   \<and> calls (snd (sync_products env_set (world_ok []) io0))
        = [RequestsGet (fmt (API_URL env_set)) None]
   \<and> last (log (snd (sync_products env_set (world_ok []) io0)))
        = (WARNING, ascii ''No products fetched. Exiting.'')
   \<and> (WARNING, ascii ''No products fetched. Exiting.'')
        \<in> set (log (snd (sync_products env_set (world_ok []) io0)))"
proof -
  note T = sync_forwards_every_record [of insert_api "[api_product api_id]" env_set True
      "PostResponse 201 [] []" io0 "world_ok [record_no_url]" "[record_no_url]" "world_ok []"
      "ascii ''No products fetched. Exiting.''" "world_ok []"]
  have b: "build_products insert_api = Returns [api_product api_id]"
    by (simp add: build_products_cases insert_api_def ascii_def)
  have u: "field (ascii ''url'') record_no_url = None"
    by (simp add: record_no_url_def ascii_def)
  have h2: "list_all (\<lambda>v. \<not> falsy v)
          [SUPABASE_URL env_set, SUPABASE_KEY env_set, MEMBER_ID env_set, API_URL env_set]
        \<and> create_client (world_ok [record_no_url]) = None
        \<and> fst (fetch_products env_set (api (world_ok [record_no_url])) io0)
             = Returns (JArray [record_no_url])
        \<and> [record_no_url] \<noteq> [] \<and> list_all is_object [record_no_url]"
    by (simp add: env_set_def falsy_def ascii_eq_Nil world_ok_def feed_def fetch_products_def
          record_no_url_def Let_def)
  have h3: "list_all (\<lambda>v. \<not> falsy v)
          [SUPABASE_URL env_set, SUPABASE_KEY env_set, MEMBER_ID env_set, API_URL env_set]
        \<and> create_client (world_ok []) = None
        \<and> fst (fetch_products env_set (api (world_ok [])) io0) = Returns (JArray [])"
    by (simp add: env_set_def falsy_def ascii_eq_Nil world_ok_def feed_def fetch_products_def
          Let_def)
  have h4: "(WARNING, ascii ''No products fetched. Exiting.'')
        \<in> set (log (snd (sync_products env_set (world_ok []) io0)))"
    by (simp add: run_defs ascii_eq_Nil)
  note c1 = mp [OF T [THEN conjunct1] b]
  note c2 = mp [OF T [THEN conjunct2, THEN conjunct1] h2]
  note c3 = mp [OF T [THEN conjunct2, THEN conjunct2, THEN conjunct1] h3]
  show ?thesis
    by (intro conjI b c1 [THEN conjunct1] u c2 [THEN conjunct1] c2 [THEN conjunct2]
          c3 [THEN conjunct1] c3 [THEN conjunct2, THEN conjunct1]
          c3 [THEN conjunct2, THEN conjunct2] h4)
qed

text \<open>
  The claim as stated fails: a fetched record with no \<open>url\<close> is sent to the store, the
  run ends normally, and its log holds four INFO records (one of them the store
  client's) and no warning.
\<close>

theorem record_without_url_is_sent:
  "field (ascii ''url'') record_no_url = None
   \<and> sync_products env_set (world_ok [record_no_url]) io0 =
     (Returns (),
      \<lparr>stdout = [],
       log = [(INFO, ascii ''Fetching products from API: https://api.example/feed''),
              (INFO, ascii ''Upserting 1 products into Supabase...''),
              client_line,
              (INFO, ascii ''Successfully upserted 1 products.'')],
       calls = [RequestsGet (ascii ''https://api.example/feed'') None,
                ClientUpsert (ascii ''products'')
                  (JArray [JObject [(ascii ''id'', JStr (ascii ''7'')),
                                    (ascii ''title'', JStr (ascii ''x'')),
                                    (ascii ''member_id'', JStr (ascii ''af000049855''))]])
                  [ascii ''id'']]\<rparr>)"
  by (simp add: run_defs record_no_url_def ascii_def)

subsection \<open>C6: the fields of a payload object\<close>

text \<open>
  Claim C6, as amended. Every object of the payload the first script posts has exactly
  the eight fields \<open>id, title, url, price, currency, image, stock, source\<close>, in this
  order; \<open>price\<close>, \<open>image\<close> and \<open>stock\<close> are always present, with \<open>null\<close> for \<open>None\<close>.
  Every object the second script sends is a fetched record with the field \<open>member_id\<close>
  set to \<open>MEMBER_ID\<close>: its other fields are whatever the source API sent.
\<close>

theorem payload_fields:
  "(c \<in> set (calls (snd (main env rq w parsed io0))) \<longrightarrow>
      (\<exists>products. c = scraper_post env products
         \<and> list_all (\<lambda>p. keys (JObject (asdict p)) = product_fields
                 \<and> field (ascii ''price'') (JObject (asdict p)) = Some (json_int (price p))
                 \<and> field (ascii ''image'') (JObject (asdict p)) = Some (json_str (image p))
                 \<and> field (ascii ''stock'') (JObject (asdict p)) = Some (json_int (stock p)))
             products))
   \<and> json_int None = JNull \<and> json_str None = JNull
   \<and> (ClientUpsert tb rows oc \<in> set (calls (snd (sync_products env sw io0))) \<longrightarrow>
      (\<exists>fetched. fst (fetch_products env (api sw) io0) = Returns (JArray fetched)
         \<and> ClientUpsert tb rows oc = sync_upsert env fetched
         \<and> list_all (\<lambda>p. field (ascii ''member_id'') (with_member_id (json_str (MEMBER_ID env)) p)
                           = Some (json_str (MEMBER_ID env))) fetched))"
proof (intro conjI impI)
  assume "c \<in> set (calls (snd (main env rq w parsed io0)))"
  from calls_main [OF this] obtain products where "c = scraper_post env products"
    by auto
  then show "\<exists>products. c = scraper_post env products
         \<and> list_all (\<lambda>p. keys (JObject (asdict p)) = product_fields
                 \<and> field (ascii ''price'') (JObject (asdict p)) = Some (json_int (price p))
                 \<and> field (ascii ''image'') (JObject (asdict p)) = Some (json_str (image p))
                 \<and> field (ascii ''stock'') (JObject (asdict p)) = Some (json_int (stock p)))
             products"
    using asdict_fields by (auto simp: list_all_iff)
next
  show "json_int None = JNull" by (simp add: json_int_def)
next
  show "json_str None = JNull" by (simp add: json_str_def)
next
  assume "ClientUpsert tb rows oc \<in> set (calls (snd (sync_products env sw io0)))"
  from sync_rows [OF this] obtain fetched where
    f: "fst (fetch_products env (api sw) io0) = Returns (JArray fetched)"
    and o: "list_all is_object fetched"
    and c: "ClientUpsert tb rows oc = sync_upsert env fetched"
    by auto
  from o have "list_all (\<lambda>p. field (ascii ''member_id'') (with_member_id (json_str (MEMBER_ID env)) p)
                           = Some (json_str (MEMBER_ID env))) fetched"
    by (simp add: list_all_iff field_with_member_id)
  with f c show "\<exists>fetched. fst (fetch_products env (api sw) io0) = Returns (JArray fetched)
         \<and> ClientUpsert tb rows oc = sync_upsert env fetched
         \<and> list_all (\<lambda>p. field (ascii ''member_id'') (with_member_id (json_str (MEMBER_ID env)) p)
                           = Some (json_str (MEMBER_ID env))) fetched"
    by blast
qed

theorem payload_fields_witness:
  "scraper_post env_set [api_product api_id]
      \<in> set (calls (snd (main env_set True (PostResponse 201 [] []) (Parsed insert_api) io0)))
   \<and> (\<exists>products. scraper_post env_set [api_product api_id] = scraper_post env_set products
         \<and> list_all (\<lambda>p. keys (JObject (asdict p)) = product_fields
                 \<and> field (ascii ''price'') (JObject (asdict p)) = Some (json_int (price p))
                 \<and> field (ascii ''image'') (JObject (asdict p)) = Some (json_str (image p))
                 \<and> field (ascii ''stock'') (JObject (asdict p)) = Some (json_int (stock p)))
             products)
   \<and> sync_upsert env_set [record_full]
      \<in> set (calls (snd (sync_products env_set (world_ok [record_full]) io0)))
   \<and> (\<exists>fetched. fst (fetch_products env_set (api (world_ok [record_full])) io0)
                    = Returns (JArray fetched)
         \<and> sync_upsert env_set [record_full] = sync_upsert env_set fetched
         \<and> list_all (\<lambda>p. field (ascii ''member_id'') (with_member_id (json_str (MEMBER_ID env_set)) p)
                           = Some (json_str (MEMBER_ID env_set))) fetched)"
proof -
  note T = payload_fields [of "scraper_post env_set [api_product api_id]" env_set True
        "PostResponse 201 [] []" "Parsed insert_api" "ascii ''products''"
        "JArray (map (with_member_id (json_str (MEMBER_ID env_set))) [record_full])"
        "[ascii ''id'']" "world_ok [record_full]", folded sync_upsert_def]
  have a: "scraper_post env_set [api_product api_id]
      \<in> set (calls (snd (main env_set True (PostResponse 201 [] []) (Parsed insert_api) io0)))"
    by (simp add: run_insert_api)
  have b: "sync_upsert env_set [record_full]
      \<in> set (calls (snd (sync_products env_set (world_ok [record_full]) io0)))"
    by (simp add: run_world_ok record_full_def)
  note c1 = mp [OF T [THEN conjunct1] a]
  note c2 = mp [OF T [THEN conjunct2, THEN conjunct2, THEN conjunct2] b]
  show ?thesis
    by (rule conjI [OF a conjI [OF c1 conjI [OF b c2]]])
qed

text \<open>
  The claim as stated fails in the second script: a fetched record with exactly the
  eight fields is sent with a ninth, \<open>member_id\<close>.
\<close>

theorem sync_payload_has_member_id:
  "keys record_full = product_fields
   \<and> calls (snd (sync_products env_set (world_ok [record_full]) io0))
     = [RequestsGet (ascii ''https://api.example/feed'') None,
        ClientUpsert (ascii ''products'')
          (JArray [with_member_id (JStr (ascii ''af000049855'')) record_full])
          [ascii ''id'']]
   \<and> keys (with_member_id (JStr (ascii ''af000049855'')) record_full)
       = product_fields @ [ascii ''member_id'']"
  by (simp add: run_defs record_full_def product_fields_def ascii_def)

subsection \<open>C8: records after their construction\<close>

text \<open>
  Claim C8, as amended. The first script sends and prints its records as it built them:
  the only call it can issue posts the built list, and its output ends with the summary
  and the titles of the built list. The second script changes every fetched record once
  before sending it: the loop of \<open>upsert_products\<close> sets \<open>member_id\<close> in place, and
  leaves every other field of the record as it was.
\<close>

theorem records_after_construction:
  "(build_products args = Returns built \<longrightarrow>
      set (calls (snd (main env rq w (Parsed args) io0))) \<subseteq> {scraper_post env built}
      \<and> (\<exists>notes. stdout (snd (main env rq w (Parsed args) io0))
                    = notes @ summary_line (length built) # map title_line built))
   \<and> (list_all is_object fetched \<and> fetched \<noteq> [] \<longrightarrow>
        fst (snd (upsert_products env u (JArray fetched) s))
          = JArray (map (with_member_id (json_str (MEMBER_ID env))) fetched)
        \<and> list_all (\<lambda>p. \<forall>k. k \<noteq> ascii ''member_id'' \<longrightarrow>
                       field k (with_member_id (json_str (MEMBER_ID env)) p) = field k p) fetched)"
proof (intro conjI impI)
  assume b: "build_products args = Returns built"
  show "set (calls (snd (main env rq w (Parsed args) io0))) \<subseteq> {scraper_post env built}"
  proof
    fix c assume "c \<in> set (calls (snd (main env rq w (Parsed args) io0)))"
    from calls_main [OF this] b show "c \<in> {scraper_post env built}"
      by auto
  qed
  from b show "\<exists>notes. stdout (snd (main env rq w (Parsed args) io0))
                    = notes @ summary_line (length built) # map title_line built"
    by (auto simp: main_Parsed build_products_cases Let_def fold_print print_def
          split: if_splits)
next
  assume a: "list_all is_object fetched \<and> fetched \<noteq> []"
  then show "fst (snd (upsert_products env u (JArray fetched) s))
          = JArray (map (with_member_id (json_str (MEMBER_ID env))) fetched)"
    by (simp add: upsert_products_objects(1))
  from a show "list_all (\<lambda>p. \<forall>k. k \<noteq> ascii ''member_id'' \<longrightarrow>
                       field k (with_member_id (json_str (MEMBER_ID env)) p) = field k p) fetched"
    by (simp add: list_all_iff field_with_member_id)
qed

theorem records_after_construction_witness:
  "build_products insert_api = Returns [api_product api_id]
   \<and> set (calls (snd (main env_set True (PostResponse 201 [] []) (Parsed insert_api) io0)))
        \<subseteq> {scraper_post env_set [api_product api_id]}
   \<and> (\<exists>notes. stdout (snd (main env_set True (PostResponse 201 [] []) (Parsed insert_api) io0))
                 = notes @ summary_line (length [api_product api_id])
                     # map title_line [api_product api_id])
   \<and> list_all is_object [record_a]
   \<and> fst (snd (upsert_products env_set store_down (JArray [record_a]) io0))
          = JArray (map (with_member_id (json_str (MEMBER_ID env_set))) [record_a])"
proof -
  note T = records_after_construction [of insert_api "[api_product api_id]" env_set True
        "PostResponse 201 [] []" "[record_a]" store_down io0]
  have b: "build_products insert_api = Returns [api_product api_id]"
    by (simp add: build_products_cases insert_api_def ascii_def)
  have o: "list_all is_object [record_a] \<and> [record_a] \<noteq> []"
    by (simp add: record_a_def)
  note c1 = mp [OF T [THEN conjunct1] b]
  note c2 = mp [OF T [THEN conjunct2] o]
  show ?thesis
    by (rule conjI [OF b conjI [OF c1 [THEN conjunct1] conjI [OF c1 [THEN conjunct2]
          conjI [OF o [THEN conjunct1] c2 [THEN conjunct1]]]]])
qed

text \<open>
  The claim as stated fails in the second script: the record as fetched has no
  \<open>member_id\<close>, and \<open>upsert_products\<close> leaves it with one.
\<close>

theorem sync_mutates_record:
  "fst (fetch_products env_set (feed [record_a]) io0) = Returns (JArray [record_a])
   \<and> fst (snd (upsert_products env_set (store (world_ok [record_a])) (JArray [record_a]) io0))
       = JArray [JObject [(ascii ''id'', JStr (ascii ''1'')),
                          (ascii ''url'', JStr (ascii ''http://a'')),
                          (ascii ''member_id'', JStr (ascii ''af000049855''))]]
   \<and> field (ascii ''member_id'') record_a = None"
  by (simp add: run_defs record_a_def ascii_def)

subsection \<open>C4, C7, C9: the second script when the store fails\<close>

text \<open>
  Claim C4 does not hold of the second script. With the four variables set and one
  record fetched, an exception raised by the store client leaves \<open>upsert_products\<close> and
  the module: nothing catches it and no record of the script mentions it
  (\<open>upsert_products_raises\<close>, for any records fetched). Here the store cannot be reached,
  so that the client's libraries log nothing either. (The first script lets no exception
  of its post escape: \<open>supabase_upsert_products_returns\<close>, \<open>main_returns_0\<close>.)
\<close>

theorem store_failure_escapes:
  "sync_products env_set (world_store_down [record_a]) io0 =
     (Raises LibraryError,
      \<lparr>stdout = [],
       log = [(INFO, ascii ''Fetching products from API: https://api.example/feed''),
              (INFO, ascii ''Upserting 1 products into Supabase...'')],
       calls = [RequestsGet (ascii ''https://api.example/feed'') None,
                ClientUpsert (ascii ''products'')
                  (JArray [JObject [(ascii ''id'', JStr (ascii ''1'')),
                                    (ascii ''url'', JStr (ascii ''http://a'')),
                                    (ascii ''member_id'', JStr (ascii ''af000049855''))]])
                  [ascii ''id'']]\<rparr>)"
  by (simp add: run_defs record_a_def ascii_def)

text \<open>
  Claim C7 does not hold of the second script, for the same reason: in that run all four
  variables are set, and the process ends with status 1. (The first script ends with
  status 0 whenever the parser accepts its arguments: \<open>script_exit_main\<close>.)
\<close>

theorem store_failure_exit_status:
  "list_all (\<lambda>v. \<not> falsy v)
     [SUPABASE_URL env_set, SUPABASE_KEY env_set, MEMBER_ID env_set, API_URL env_set]
   \<and> script_exit (fst (sync_products env_set (world_store_down [record_a]) io0)) = 1"
  by (simp add: run_defs record_a_def ascii_def script_exit_def)

text \<open>
  Claim C9 does not hold of the second script: its GET, the first call of the run, is
  issued with no timeout. (Its upsert goes through the store client, to which the script
  passes no timeout either, so that the client's own default applies. The one call of the
  first script has 30 seconds: \<open>scraper_calls_timeout\<close>.)
\<close>

theorem sync_calls_without_timeout:
  "map call_timeout (calls (snd (sync_products env_set (world_ok [record_a]) io0)))
     = [None, None]"
  by (simp add: run_defs record_a_def ascii_def)

end
